theory Spec2Isabelle
  imports Main
begin

section \<open>The API gateway of services/api-gateway/src/server.js\<close>

text \<open>
  The gateway is an Express application: a stack of layers, visited in the order in which
  \<^verbatim>\<open>server.js\<close> registers them. Each layer is a chain of middleware; a middleware ends
  the response, calls \<^verbatim>\<open>next()\<close>, calls \<^verbatim>\<open>next(err)\<close>, or does none of these and leaves
  the client waiting. The model keeps that shape. What a middleware does beyond
  answering (writing to the logger, calling an upstream, counting a hit) is recorded in
  an explicit world that is passed along.

  Three packages the file calls are not part of the repository: \<^verbatim>\<open>jsonwebtoken\<close>,
  \<^verbatim>\<open>http-proxy-middleware\<close> with the upstream behind it, and \<^verbatim>\<open>express-rate-limit\<close>.
  The first two are parameters of the model (\<open>deps\<close>); the third is modelled from the
  specification's description of the algorithm, with the constants of \<^verbatim>\<open>server.js\<close>.
  \<^verbatim>\<open>helmet\<close> and \<^verbatim>\<open>compression\<close> only touch response headers and encoding and are left out.
\<close>

subsection \<open>JSON values\<close>

datatype json =
    JUndefined
  | JNull
  | JBool bool
  | JStr string
  | JNum nat
  | JArr "json list"
  | JObj "(string \<times> json) list"

text \<open>Member access \<^verbatim>\<open>obj.k\<close>: \<^verbatim>\<open>undefined\<close> when the member is absent.\<close>

definition field :: "(string \<times> json) list \<Rightarrow> string \<Rightarrow> json" where
  "field obj k = (case map_of obj k of None \<Rightarrow> JUndefined | Some v \<Rightarrow> v)"

text \<open>JavaScript truthiness, and \<^verbatim>\<open>a || b\<close>.\<close>

fun truthy :: "json \<Rightarrow> bool" where
  "truthy JUndefined = False"
| "truthy JNull = False"
| "truthy (JBool b) = b"
| "truthy (JStr s) = (s \<noteq> [])"
| "truthy (JNum n) = (n \<noteq> 0)"
| "truthy (JArr xs) = True"
| "truthy (JObj kvs) = True"

definition or_else :: "json \<Rightarrow> json \<Rightarrow> json" where
  "or_else a b = (if truthy a then a else b)"

definition opt_str :: "string option \<Rightarrow> json" where
  "opt_str v = (case v of None \<Rightarrow> JUndefined | Some s \<Rightarrow> JStr s)"

text \<open>\<^verbatim>\<open>String.prototype.split(sep)\<close> for a one-character separator.\<close>

fun split_on :: "char \<Rightarrow> string \<Rightarrow> string list" where
  "split_on sep [] = [[]]"
| "split_on sep (c # cs) =
     (if c = sep then [] # split_on sep cs
      else (case split_on sep cs of
              [] \<Rightarrow> [[c]]
            | w # ws \<Rightarrow> (c # w) # ws))"

text \<open>Array indexing \<^verbatim>\<open>xs[i]\<close>: \<^verbatim>\<open>undefined\<close> (here \<open>None\<close>) out of range.\<close>

fun index :: "'a list \<Rightarrow> nat \<Rightarrow> 'a option" where
  "index [] i = None"
| "index (x # xs) 0 = Some x"
| "index (x # xs) (Suc i) = index xs i"

text \<open>\<^verbatim>\<open>Number.prototype.toString()\<close> of a non-negative integer.\<close>

definition digit :: "nat \<Rightarrow> char" where
  "digit d = ''0123456789'' ! d"

fun decimal :: "nat \<Rightarrow> string" where
  "decimal n = (if n < 10 then [digit n] else decimal (n div 10) @ [digit (n mod 10)])"

declare decimal.simps [simp del]

text \<open>
  \<^verbatim>\<open>String(v)\<close>. An array is the texts of its elements joined by commas, where
  \<^verbatim>\<open>null\<close> and \<^verbatim>\<open>undefined\<close> elements give the empty text.
\<close>

fun join :: "string list \<Rightarrow> string" where
  "join [] = []"
| "join [x] = x"
| "join (x # y # ys) = x @ CHR '','' # join (y # ys)"

fun js_string :: "json \<Rightarrow> string" and js_elements :: "json list \<Rightarrow> string list" where
  "js_string JUndefined = ''undefined''"
| "js_string JNull = ''null''"
| "js_string (JBool b) = (if b then ''true'' else ''false'')"
| "js_string (JStr s) = s"
| "js_string (JNum n) = decimal n"
| "js_string (JArr xs) = join (js_elements xs)"
| "js_string (JObj kvs) = ''[object Object]''"
| "js_elements [] = []"
| "js_elements (x # xs) =
     (if x = JUndefined \<or> x = JNull then [] else js_string x) # js_elements xs"

subsection \<open>Process environment\<close>

type_synonym env = "(string \<times> string) list"

text \<open>\<^verbatim>\<open>process.env.K || d\<close>: an unset or empty variable gives the default.\<close>

definition env_or :: "env \<Rightarrow> string \<Rightarrow> string \<Rightarrow> string" where
  "env_or e k d = (case map_of e k of None \<Rightarrow> d | Some v \<Rightarrow> if v = [] then d else v)"

subsection \<open>Requests, responses, log entries\<close>

datatype http_method = GET | POST | PUT | DELETE | OPTIONS | PATCH | HEAD

fun method_name :: "http_method \<Rightarrow> string" where
  "method_name GET = ''GET''"
| "method_name POST = ''POST''"
| "method_name PUT = ''PUT''"
| "method_name DELETE = ''DELETE''"
| "method_name OPTIONS = ''OPTIONS''"
| "method_name PATCH = ''PATCH''"
| "method_name HEAD = ''HEAD''"

text \<open>An entry of \<^verbatim>\<open>validationResult(req).array()\<close>.\<close>

record verror =
  ve_value :: json
  ve_msg :: string
  ve_param :: string

text \<open>A JavaScript \<^verbatim>\<open>Error\<close>, as far as the gateway reads it.\<close>

record js_error =
  err_message :: string
  err_stack :: string

text \<open>
  The body a request arrives with, as the parsers of lines 67-68 find it: an object
  (empty when there is no body or the content type is not one they parse; a top-level
  array is an object with none of the members the gateway reads), or a body they fail
  on (malformed JSON, or one over the limit) with the error they raise.
\<close>

datatype raw_body = Parsed "(string \<times> json) list" | Unparsable js_error

text \<open>
  A request. Paths are lists of segments (\<^verbatim>\<open>/fhir/Patient\<close> is \<open>[''fhir'', ''Patient'']\<close>),
  in the lower case Express compares them in. \<open>req_url\<close> is \<^verbatim>\<open>req.url\<close>, which Express
  strips of the mount path inside \<^verbatim>\<open>app.use(path, ...)\<close>; \<open>req_originalUrl\<close> keeps the
  whole path. Header names are lower case, as Node delivers them. \<open>req_now\<close> is the
  clock (\<^verbatim>\<open>Date.now()\<close>, milliseconds) while the request is handled. \<open>req_body\<close>,
  \<open>req_user\<close> and \<open>req_errors\<close> are what middleware attaches: \<^verbatim>\<open>req.body\<close>,
  \<^verbatim>\<open>req.user\<close> and the validation errors.
\<close>

record request =
  req_method :: http_method
  req_originalUrl :: "string list"
  req_url :: "string list"
  req_ip :: string
  req_headers :: "(string \<times> string) list"
  req_raw :: raw_body
  req_now :: nat
  req_body :: "(string \<times> json) list"
  req_user :: "(string \<times> json) list option"
  req_errors :: "verror list"

datatype body = Json json | Text string | NoBody

record response =
  status :: nat
  res_body :: body

datatype log_level = Info | Error

record log_entry =
  log_level :: log_level
  log_message :: string
  log_meta :: json

text \<open>The text of \<^verbatim>\<open>req.url\<close>.\<close>

definition url_text :: "string list \<Rightarrow> string" where
  "url_text segs = (if segs = [] then ''/'' else concat (map (\<lambda>s. CHR ''/'' # s) segs))"

subsection \<open>The collaborators\<close>

text \<open>
  \<^verbatim>\<open>jsonwebtoken\<close>: \<open>jwt_sign payload secret expiresIn clock\<close> is
  \<^verbatim>\<open>jwt.sign(payload, secret, {expiresIn})\<close> called when the clock (in seconds) reads
  \<open>clock\<close>; \<open>jwt_verify token secret clock\<close> is \<^verbatim>\<open>jwt.verify(token, secret, cb)\<close>, giving
  the callback's \<^verbatim>\<open>err.message\<close> (\<open>Inl\<close>) or the decoded payload (\<open>Inr\<close>).
\<close>

record jwt_lib =
  jwt_sign :: "(string \<times> json) list \<Rightarrow> string \<Rightarrow> nat \<Rightarrow> nat \<Rightarrow> string"
  jwt_verify :: "string \<Rightarrow> string \<Rightarrow> nat \<Rightarrow> string + (string \<times> json) list"

text \<open>
  What the upstream behind a proxy does with a forwarded request: it answers, the
  connection fails with an error whose \<^verbatim>\<open>message\<close> is given, or nothing comes back
  (no proxy sets a timeout, so the gateway then waits without answering).
\<close>

datatype upstream_result = Replied response | Failed string | Silent

type_synonym upstream = "string \<Rightarrow> request \<Rightarrow> upstream_result"

record deps =
  d_env :: env
  d_jwt :: jwt_lib
  d_upstream :: upstream

text \<open>
  The \<^verbatim>\<open>Authorization\<close> header of an outbound request: the inbound header copied, or
  \<^verbatim>\<open>Basic\<close> with the base64 text of a \<^verbatim>\<open>user:password\<close> pair.
\<close>

datatype authorization = Copied string | Basic string

text \<open>One forwarded request: the target, the method and path, and its \<^verbatim>\<open>Authorization\<close> header.\<close>

record upstream_call =
  uc_target :: string
  uc_method :: http_method
  uc_url :: "string list"
  uc_authorization :: "authorization option"

text \<open>The state of one caller's window in the rate limiter.\<close>

record rate_window =
  count :: nat
  window_start :: nat

record world =
  logs :: "log_entry list"
  upstream_calls :: "upstream_call list"
  hits :: "(string \<times> rate_window) list"

text \<open>
  What a middleware does with a request: \<^verbatim>\<open>next()\<close>, a response, \<^verbatim>\<open>next(err)\<close>, or
  none of them.
\<close>

datatype outcome = Next request | Done response | Throw js_error request | Pending

type_synonym middleware = "request \<Rightarrow> world \<Rightarrow> outcome \<times> world"

definition logger :: "log_level \<Rightarrow> string \<Rightarrow> json \<Rightarrow> world \<Rightarrow> world" where
  "logger lv msg m w = w\<lparr>logs := logs w @ [\<lparr>log_level = lv, log_message = msg, log_meta = m\<rparr>]\<rparr>"

definition respond :: "nat \<Rightarrow> body \<Rightarrow> outcome" where
  "respond code b = Done \<lparr>status = code, res_body = b\<rparr>"

definition header :: "request \<Rightarrow> string \<Rightarrow> string option" where
  "header req name = map_of (req_headers req) name"

subsection \<open>CORS preflight\<close>

text \<open>
  \<^verbatim>\<open>app.use(cors({...}))\<close>, line 49. With the package's default
  \<^verbatim>\<open>preflightContinue: false\<close> an \<^verbatim>\<open>OPTIONS\<close> request is answered 204 by the middleware
  itself; every other request goes on (only response headers are added).
\<close>

definition cors :: middleware where
  "cors req w = (if req_method req = OPTIONS then (respond 204 NoBody, w) else (Next req, w))"

subsection \<open>Rate limiter\<close>

text \<open>The options of \<^verbatim>\<open>rateLimit({...})\<close>, lines 57-63.\<close>

definition windowMs :: nat where
  "windowMs = 15 * 60 * 1000"

definition max_requests :: nat where
  "max_requests = 100"

definition limit_message :: string where
  "limit_message = ''Too many requests from this IP, please try again later.''"

text \<open>
  Modelled from the spec: the algorithm inside the \<^verbatim>\<open>express-rate-limit\<close> middleware, a
  package whose code is not under src/ (only its configuration and its place in the
  stack are). Section 4.3: maintain \<open>{count, window_start}\<close> per key; if
  \<open>now - window_start \<ge> window_duration\<close>, reset \<open>count = 0, window_start = now\<close>;
  increment \<open>count\<close>; if \<open>count > limit\<close>, reject. A key seen for the first time
  starts a window at \<open>now\<close>.
\<close>

definition current_window :: "nat \<Rightarrow> rate_window option \<Rightarrow> rate_window" where
  "current_window now st =
     (case st of
        None \<Rightarrow> \<lparr>count = 0, window_start = now\<rparr>
      | Some rw \<Rightarrow>
          if windowMs \<le> now - window_start rw then \<lparr>count = 0, window_start = now\<rparr>
          else rw)"

definition admit :: "nat \<Rightarrow> string \<Rightarrow> (string \<times> rate_window) list \<Rightarrow> bool \<times> (string \<times> rate_window) list" where
  "admit now key store =
     (let rw = current_window now (map_of store key);
          rw' = rw\<lparr>count := count rw + 1\<rparr>
      in (\<not> max_requests < count rw', (key, rw') # store))"

text \<open>
  \<^verbatim>\<open>app.use(limiter)\<close>, line 65: keyed by \<^verbatim>\<open>req.ip\<close>; a rejection answers 429 with
  the configured message.
\<close>

definition limiter :: middleware where
  "limiter req w =
     (case admit (req_now req) (req_ip req) (hits w) of
        (ok, store) \<Rightarrow>
          if ok then (Next req, w\<lparr>hits := store\<rparr>)
          else (respond 429 (Text limit_message), w\<lparr>hits := store\<rparr>))"

subsection \<open>Body parsers\<close>

text \<open>
  \<^verbatim>\<open>app.use(express.json({ limit: '10mb' }))\<close> and \<^verbatim>\<open>app.use(express.urlencoded(...))\<close>,
  lines 67-68: the parsed members become \<^verbatim>\<open>req.body\<close>; a body the parser fails on is
  passed to \<^verbatim>\<open>next(err)\<close>.
\<close>

definition express_json :: middleware where
  "express_json req w =
     (case req_raw req of
        Parsed members \<Rightarrow> (Next (req\<lparr>req_body := members\<rparr>), w)
      | Unparsable err \<Rightarrow> (Throw err req, w))"

subsection \<open>JWT authentication middleware\<close>

definition jwt_secret :: "env \<Rightarrow> string" where
  "jwt_secret e = env_or e ''JWT_SECRET'' ''fallback-secret''"

text \<open>
  Lines 72-73: \<^verbatim>\<open>authHeader && authHeader.split(' ')[1]\<close>. An absent header gives
  \<^verbatim>\<open>undefined\<close>, an empty one gives itself.
\<close>

definition header_token :: "string option \<Rightarrow> string option" where
  "header_token authHeader =
     (case authHeader of
        None \<Rightarrow> None
      | Some h \<Rightarrow> if h = [] then Some [] else index (split_on CHR '' '' h) 1)"

text \<open>Lines 71-87.\<close>

definition authenticateToken :: "deps \<Rightarrow> middleware" where
  "authenticateToken d req w =
     (case header_token (header req ''authorization'') of
        None \<Rightarrow> (respond 401 (Json (JObj [(''error'', JStr ''Access token required'')])), w)
      | Some token \<Rightarrow>
          if token = [] then
            (respond 401 (Json (JObj [(''error'', JStr ''Access token required'')])), w)
          else
            (case jwt_verify (d_jwt d) token (jwt_secret (d_env d)) (req_now req div 1000) of
               Inl err \<Rightarrow>
                 (respond 403 (Json (JObj [(''error'', JStr ''Invalid or expired token'')])),
                  logger Error ''JWT verification failed'' (JObj [(''error'', JStr err)]) w)
             | Inr user \<Rightarrow> (Next (req\<lparr>req_user := Some user\<rparr>), w)))"

subsection \<open>Audit logging middleware\<close>

text \<open>\<^verbatim>\<open>req.user?.id\<close> and \<^verbatim>\<open>req.user.id\<close>.\<close>

definition user_id :: "request \<Rightarrow> json" where
  "user_id req = (case req_user req of None \<Rightarrow> JUndefined | Some u \<Rightarrow> field u ''id'')"

text \<open>
  Lines 90-102. The timestamp is \<^verbatim>\<open>new Date().toISOString()\<close>; the model keeps the
  clock reading it is the text of.
\<close>

definition auditData :: "request \<Rightarrow> json" where
  "auditData req =
     JObj [(''timestamp'', JNum (req_now req)),
           (''method'', JStr (method_name (req_method req))),
           (''url'', JStr (url_text (req_url req))),
           (''ip'', JStr (req_ip req)),
           (''userAgent'', opt_str (header req ''user-agent'')),
           (''userId'', or_else (user_id req) (JStr ''anonymous''))]"

definition auditLogger :: middleware where
  "auditLogger req w = (Next req, logger Info ''API Access'' (auditData req) w)"

subsection \<open>Health check\<close>

definition health :: "deps \<Rightarrow> middleware" where
  "health d req w =
     (respond 200 (Json (JObj [(''status'', JStr ''healthy''),
                               (''timestamp'', JNum (req_now req)),
                               (''version'', JStr (env_or (d_env d) ''npm_package_version'' ''1.0.0''))])),
      w)"

subsection \<open>Proxies\<close>

record proxy_options =
  px_target :: string
  px_changeOrigin :: bool
  px_auth :: "string option"

text \<open>
  The \<^verbatim>\<open>Authorization\<close> header that goes out. The proxy copies the headers of the
  inbound request; Node's \<^verbatim>\<open>http.request\<close> turns the \<^verbatim>\<open>auth\<close> option into a
  \<^verbatim>\<open>Basic\<close> header only when the request has no \<^verbatim>\<open>Authorization\<close> header yet.
\<close>

definition outbound_authorization :: "proxy_options \<Rightarrow> request \<Rightarrow> authorization option" where
  "outbound_authorization opts req =
     (case header req ''authorization'' of
        None \<Rightarrow> map_option Basic (px_auth opts)
      | Some h \<Rightarrow> if h = [] then map_option Basic (px_auth opts) else Some (Copied h))"

text \<open>
  \<^verbatim>\<open>createProxyMiddleware(options)\<close> mounted with \<^verbatim>\<open>app.use(path, ...)\<close>: every request
  that reaches it is forwarded to the target. The middleware first sets \<^verbatim>\<open>req.url\<close>
  back to \<^verbatim>\<open>req.originalUrl\<close>, so the whole path is forwarded and is what the handlers
  read. \<^verbatim>\<open>onProxyReq\<close> runs as the outgoing request is made, \<^verbatim>\<open>onError\<close> when it fails.
  The middleware never calls \<^verbatim>\<open>next()\<close>.
\<close>

definition createProxyMiddleware ::
  "proxy_options \<Rightarrow> (request \<Rightarrow> world \<Rightarrow> world) \<Rightarrow> (string \<Rightarrow> request \<Rightarrow> world \<Rightarrow> outcome \<times> world)
     \<Rightarrow> upstream \<Rightarrow> middleware" where
  "createProxyMiddleware opts onProxyReq onError up req w =
     (let req' = req\<lparr>req_url := req_originalUrl req\<rparr>;
          call = \<lparr>uc_target = px_target opts, uc_method = req_method req,
                  uc_url = req_originalUrl req,
                  uc_authorization = outbound_authorization opts req\<rparr>;
          w1 = onProxyReq req' (w\<lparr>upstream_calls := upstream_calls w @ [call]\<rparr>)
      in case up (px_target opts) req' of
           Replied r \<Rightarrow> (Done r, w1)
         | Failed err \<Rightarrow> onError err req' w1
         | Silent \<Rightarrow> (Pending, w1))"

text \<open>The handlers the four proxies share, up to their texts (lines 120-135, 142-155, 188-201, 208-221).\<close>

definition onProxyReq :: "string \<Rightarrow> (string \<times> json) list \<Rightarrow> request \<Rightarrow> world \<Rightarrow> world" where
  "onProxyReq msg extra req w =
     logger Info msg (JObj ([(''endpoint'', JStr (url_text (req_url req))),
                             (''method'', JStr (method_name (req_method req))),
                             (''userId'', user_id req)] @ extra)) w"

definition onError :: "string \<Rightarrow> string \<Rightarrow> string \<Rightarrow> request \<Rightarrow> world \<Rightarrow> outcome \<times> world" where
  "onError log_msg client_msg err req w =
     (respond 502 (Json (JObj [(''error'', JStr client_msg), (''message'', JStr err)])),
      logger Error log_msg (JObj [(''error'', JStr err), (''url'', JStr (url_text (req_url req)))]) w)"

definition fhirServerUrl :: "env \<Rightarrow> string" where
  "fhirServerUrl e = env_or e ''FHIR_SERVER_URL'' ''http://fhir-server:8084''"

definition fhir_options :: "env \<Rightarrow> proxy_options" where
  "fhir_options e =
     \<lparr>px_target = fhirServerUrl e, px_changeOrigin = True, px_auth = Some ''admin:admin123''\<rparr>"

definition fhir_proxy :: "deps \<Rightarrow> middleware" where
  "fhir_proxy d =
     createProxyMiddleware (fhir_options (d_env d))
       (\<lambda>req. onProxyReq ''FHIR API Access''
                 [(''targetUrl'', JStr (fhirServerUrl (d_env d) @ url_text (req_url req)))] req)
       (onError ''FHIR Proxy Error'' ''FHIR service temporarily unavailable'')
       (d_upstream d)"

definition hl7_options :: "env \<Rightarrow> proxy_options" where
  "hl7_options e =
     \<lparr>px_target = env_or e ''HL7_PROCESSOR_URL'' ''http://hl7-processor:8001'',
      px_changeOrigin = True, px_auth = None\<rparr>"

definition hl7_proxy :: "deps \<Rightarrow> middleware" where
  "hl7_proxy d =
     createProxyMiddleware (hl7_options (d_env d))
       (onProxyReq ''HL7 Processor Access'' [])
       (onError ''HL7 Proxy Error'' ''HL7 processor service temporarily unavailable'')
       (d_upstream d)"

definition epic_options :: "env \<Rightarrow> proxy_options" where
  "epic_options e =
     \<lparr>px_target = env_or e ''EPIC_CONNECTOR_URL'' ''http://epic-connector:8002'',
      px_changeOrigin = True, px_auth = None\<rparr>"

definition epic_proxy :: "deps \<Rightarrow> middleware" where
  "epic_proxy d =
     createProxyMiddleware (epic_options (d_env d))
       (onProxyReq ''EPIC Connection Hub Access'' [])
       (onError ''EPIC Proxy Error'' ''EPIC connector service temporarily unavailable'')
       (d_upstream d)"

definition audit_options :: "env \<Rightarrow> proxy_options" where
  "audit_options e =
     \<lparr>px_target = env_or e ''AUDIT_SERVICE_URL'' ''http://audit-service:8003'',
      px_changeOrigin = True, px_auth = None\<rparr>"

definition audit_proxy :: "deps \<Rightarrow> middleware" where
  "audit_proxy d =
     createProxyMiddleware (audit_options (d_env d))
       (onProxyReq ''Audit Service Access'' [])
       (onError ''Audit Proxy Error'' ''Audit service temporarily unavailable'')
       (d_upstream d)"

subsection \<open>Request validation\<close>

text \<open>
  \<^verbatim>\<open>body(field).notEmpty().withMessage(msg)\<close> and \<^verbatim>\<open>body(field).equals(text)\<close> of
  \<^verbatim>\<open>express-validator\<close>. A standard validator tests the text of the member; a member
  that is an array is tested item by item (so an empty array passes every test), and
  every item that fails is recorded as an error on the request. The validator always
  calls \<^verbatim>\<open>next()\<close>. Without \<^verbatim>\<open>withMessage\<close> the message is the package's
  \<^verbatim>\<open>Invalid value\<close>.

  The text of an item is the package's \<^verbatim>\<open>toString\<close>: of a non-empty array its first
  element, of \<^verbatim>\<open>null\<close> and an absent member the empty text, otherwise \<^verbatim>\<open>String(v)\<close>.
\<close>

fun shallow_text :: "json \<Rightarrow> string" where
  "shallow_text JUndefined = []"
| "shallow_text JNull = []"
| "shallow_text v = js_string v"

fun validator_text :: "json \<Rightarrow> string" where
  "validator_text (JArr (x # xs)) = shallow_text x"
| "validator_text v = shallow_text v"

fun items :: "json \<Rightarrow> json list" where
  "items (JArr xs) = xs"
| "items v = [v]"

definition violations :: "(string \<Rightarrow> bool) \<Rightarrow> string \<Rightarrow> string \<Rightarrow> (string \<times> json) list \<Rightarrow> verror list" where
  "violations ok f msg b =
     map (\<lambda>x. \<lparr>ve_value = x, ve_msg = msg, ve_param = f\<rparr>)
         (filter (\<lambda>x. \<not> ok (validator_text x)) (items (field b f)))"

definition validate :: "(string \<Rightarrow> bool) \<Rightarrow> string \<Rightarrow> string \<Rightarrow> middleware" where
  "validate ok f msg req w =
     (Next (req\<lparr>req_errors := req_errors req @ violations ok f msg (req_body req)\<rparr>), w)"

definition body_notEmpty :: "string \<Rightarrow> string \<Rightarrow> middleware" where
  "body_notEmpty f msg = validate (\<lambda>s. s \<noteq> []) f msg"

definition body_equals :: "string \<Rightarrow> string \<Rightarrow> string \<Rightarrow> middleware" where
  "body_equals f text msg = validate (\<lambda>s. s = text) f msg"

definition verror_json :: "verror \<Rightarrow> json" where
  "verror_json e =
     JObj [(''value'', ve_value e), (''msg'', JStr (ve_msg e)),
           (''param'', JStr (ve_param e)), (''location'', JStr ''body'')]"

definition validation_failed :: "request \<Rightarrow> outcome" where
  "validation_failed req =
     respond 400 (Json (JObj [(''errors'', JArr (map verror_json (req_errors req)))]))"

subsection \<open>Legacy HL7 message endpoint\<close>

text \<open>The handler of \<^verbatim>\<open>app.post('/hl7/message', [...], handler)\<close>, lines 164-182.\<close>

definition hl7_message :: middleware where
  "hl7_message req w =
     (if req_errors req \<noteq> [] then (validation_failed req, w)
      else
        (respond 202
           (Json (JObj [(''message'', JStr ''HL7 message queued for processing''),
                        (''messageId'',
                           or_else (field (req_body req) ''messageId'')
                                   (JStr (decimal (req_now req))))])),
         logger Info ''HL7 Message Received''
           (JObj [(''messageType'', field (req_body req) ''messageType''),
                  (''userId'', user_id req),
                  (''messageId'', field (req_body req) ''messageId'')]) w))"

subsection \<open>OAuth2 token endpoint\<close>

definition token_scope :: string where
  "token_scope = ''fhir:read fhir:write hl7:process''"

text \<open>The payload and the call of \<^verbatim>\<open>jwt.sign\<close>, lines 239-247; \<^verbatim>\<open>'1h'\<close> is 3600 seconds.\<close>

definition token_payload :: "request \<Rightarrow> (string \<times> json) list" where
  "token_payload req =
     [(''client_id'', field (req_body req) ''client_id''),
      (''scope'', JStr token_scope),
      (''iss'', JStr ''epic-ehr-gateway'')]"

definition sign_token :: "deps \<Rightarrow> request \<Rightarrow> string" where
  "sign_token d req =
     jwt_sign (d_jwt d) (token_payload req) (jwt_secret (d_env d)) 3600 (req_now req div 1000)"

text \<open>The handler of \<^verbatim>\<open>app.post('/oauth/token', [...], handler)\<close>, lines 229-257.\<close>

definition oauth_token :: "deps \<Rightarrow> middleware" where
  "oauth_token d req w =
     (if req_errors req \<noteq> [] then (validation_failed req, w)
      else
        (respond 200
           (Json (JObj [(''access_token'', JStr (sign_token d req)),
                        (''token_type'', JStr ''Bearer''),
                        (''expires_in'', JNum 3600),
                        (''scope'', JStr token_scope)])),
         logger Info ''OAuth token issued''
           (JObj [(''client_id'', field (req_body req) ''client_id'')]) w))"

subsection \<open>Error handler and 404 handler\<close>

text \<open>The error-handling middleware of lines 260-272.\<close>

definition error_handler :: "js_error \<Rightarrow> middleware" where
  "error_handler err req w =
     (respond 500
        (Json (JObj [(''error'', JStr ''Internal server error''),
                     (''requestId'',
                        or_else (opt_str (header req ''x-request-id''))
                                (JStr (decimal (req_now req))))])),
      logger Error ''Unhandled error''
        (JObj [(''error'', JStr (err_message err)),
               (''stack'', JStr (err_stack err)),
               (''url'', JStr (url_text (req_url req))),
               (''method'', JStr (method_name (req_method req)))]) w)"

text \<open>Lines 275-277.\<close>

definition not_found :: middleware where
  "not_found req w = (respond 404 (Json (JObj [(''error'', JStr ''Endpoint not found'')])), w)"

subsection \<open>The application\<close>

text \<open>
  How a layer is mounted: \<^verbatim>\<open>app.use(path, ...)\<close> takes every method and every path
  under \<open>path\<close>; \<^verbatim>\<open>app.get(path, ...)\<close> and \<^verbatim>\<open>app.post(path, ...)\<close> take one method and
  the path itself (a \<^verbatim>\<open>GET\<close> route also takes \<^verbatim>\<open>HEAD\<close>). A middleware of four
  arguments is an error handler: it is skipped by requests and run for errors.
\<close>

datatype mount = Use "string list" | Route http_method "string list"

datatype layer = Layer mount "middleware list" | ErrorHandler "js_error \<Rightarrow> middleware"

fun matches :: "mount \<Rightarrow> request \<Rightarrow> bool" where
  "matches (Use p) req = (take (length p) (req_originalUrl req) = p)"
| "matches (Route m p) req =
     ((req_method req = m \<or> (m = GET \<and> req_method req = HEAD)) \<and> req_originalUrl req = p)"

fun enter :: "mount \<Rightarrow> request \<Rightarrow> request" where
  "enter (Use p) req = req\<lparr>req_url := drop (length p) (req_originalUrl req)\<rparr>"
| "enter (Route m p) req = req\<lparr>req_url := req_originalUrl req\<rparr>"

fun run_chain :: "middleware list \<Rightarrow> middleware" where
  "run_chain [] req w = (Next req, w)"
| "run_chain (m # ms) req w =
     (case m req w of
        (Next req', w') \<Rightarrow> run_chain ms req' w'
      | (res, w') \<Rightarrow> (res, w'))"

text \<open>
  The stack is walked in registration order; the first layer that ends the response
  decides it. After \<^verbatim>\<open>next(err)\<close> the walk goes on among the error handlers only, with
  \<^verbatim>\<open>req.url\<close> whole again. A request no layer answers gets Express's own 404, an error no
  handler answers its own 500. A request whose middleware neither answers nor goes on
  gets no response (\<open>None\<close>).
\<close>

fun dispatch :: "layer list \<Rightarrow> request \<Rightarrow> world \<Rightarrow> response option \<times> world"
and on_error :: "js_error \<Rightarrow> layer list \<Rightarrow> request \<Rightarrow> world \<Rightarrow> response option \<times> world" where
  "dispatch [] req w = (Some \<lparr>status = 404, res_body = Text ''Not Found''\<rparr>, w)"
| "dispatch (Layer mt ms # layers) req w =
     (if matches mt req then
        (case run_chain ms (enter mt req) w of
           (Next req', w') \<Rightarrow> dispatch layers req' w'
         | (Done r, w') \<Rightarrow> (Some r, w')
         | (Throw err req', w') \<Rightarrow> on_error err layers (req'\<lparr>req_url := req_originalUrl req'\<rparr>) w'
         | (Pending, w') \<Rightarrow> (None, w'))
      else dispatch layers req w)"
| "dispatch (ErrorHandler h # layers) req w = dispatch layers req w"
| "on_error err [] req w = (Some \<lparr>status = 500, res_body = Text ''Internal Server Error''\<rparr>, w)"
| "on_error err (Layer mt ms # layers) req w = on_error err layers req w"
| "on_error err (ErrorHandler h # layers) req w =
     (case h err req w of
        (Next req', w') \<Rightarrow> dispatch layers req' w'
      | (Done r, w') \<Rightarrow> (Some r, w')
      | (Throw err' req', w') \<Rightarrow> on_error err' layers req' w'
      | (Pending, w') \<Rightarrow> (None, w'))"

text \<open>
  The layers of \<^verbatim>\<open>server.js\<close>, in the order of lines 49, 65, 67, 105, 116, 139, 159, 185,
  205, 225, 260, 275.
\<close>

definition app :: "deps \<Rightarrow> layer list" where
  "app d =
     [Layer (Use []) [cors],
      Layer (Use []) [limiter],
      Layer (Use []) [express_json],
      Layer (Route GET [''health'']) [health d],
      Layer (Use [''fhir'']) [authenticateToken d, auditLogger, fhir_proxy d],
      Layer (Use [''hl7'']) [authenticateToken d, auditLogger, hl7_proxy d],
      Layer (Route POST [''hl7'', ''message''])
         [authenticateToken d, auditLogger,
          body_notEmpty ''messageType'' ''Message type is required'',
          body_notEmpty ''content'' ''HL7 content is required'',
          hl7_message],
      Layer (Use [''epic'']) [authenticateToken d, auditLogger, epic_proxy d],
      Layer (Use [''audit'']) [authenticateToken d, auditLogger, audit_proxy d],
      Layer (Route POST [''oauth'', ''token''])
         [body_equals ''grant_type'' ''client_credentials'' ''Invalid value'',
          body_notEmpty ''client_id'' ''Invalid value'',
          body_notEmpty ''client_secret'' ''Invalid value'',
          oauth_token d],
      ErrorHandler error_handler,
      Layer (Use []) [not_found]]"

text \<open>
  One inbound request: Express hands the stack a fresh request object, with nothing
  attached to it yet and \<^verbatim>\<open>req.url\<close> the whole path.
\<close>

definition fresh :: "request \<Rightarrow> request" where
  "fresh req = req\<lparr>req_body := [], req_user := None, req_errors := [], req_url := req_originalUrl req\<rparr>"

definition gateway :: "deps \<Rightarrow> request \<Rightarrow> world \<Rightarrow> response option \<times> world" where
  "gateway d req w = dispatch (app d) (fresh req) w"



text \<open>The audit records among the log entries: what \<open>auditLogger\<close> writes.\<close>

definition audit_records :: "world \<Rightarrow> log_entry list" where
  "audit_records w = filter (\<lambda>e. log_message e = ''API Access'') (logs w)"

subsection \<open>Notions the properties are stated with\<close>

text \<open>
  The four proxied prefixes, with the proxy mounted at each, its options and the text of
  its 502 (lines 116-136, 139-156, 185-202, 205-222).
\<close>

definition protected_prefixes :: "string list" where
  "protected_prefixes = [''fhir'', ''hl7'', ''epic'', ''audit'']"

definition proxy_at :: "deps \<Rightarrow> string \<Rightarrow> middleware" where
  "proxy_at d p =
     (if p = ''fhir'' then fhir_proxy d
      else if p = ''hl7'' then hl7_proxy d
      else if p = ''epic'' then epic_proxy d
      else audit_proxy d)"

definition options_at :: "env \<Rightarrow> string \<Rightarrow> proxy_options" where
  "options_at e p =
     (if p = ''fhir'' then fhir_options e
      else if p = ''hl7'' then hl7_options e
      else if p = ''epic'' then epic_options e
      else audit_options e)"

definition unavailable_text :: "string \<Rightarrow> string" where
  "unavailable_text p =
     (if p = ''fhir'' then ''FHIR service temporarily unavailable''
      else if p = ''hl7'' then ''HL7 processor service temporarily unavailable''
      else if p = ''epic'' then ''EPIC connector service temporarily unavailable''
      else ''Audit service temporarily unavailable'')"

definition proxy_error_text :: "string \<Rightarrow> string" where
  "proxy_error_text p =
     (if p = ''fhir'' then ''FHIR Proxy Error''
      else if p = ''hl7'' then ''HL7 Proxy Error''
      else if p = ''epic'' then ''EPIC Proxy Error''
      else ''Audit Proxy Error'')"

text \<open>Whether the parsers of lines 67-68 accept the body, and the members they then attach.\<close>

definition parses :: "request \<Rightarrow> bool" where
  "parses req = (case req_raw req of Parsed members \<Rightarrow> True | Unparsable err \<Rightarrow> False)"

definition parsed_body :: "request \<Rightarrow> (string \<times> json) list" where
  "parsed_body req = (case req_raw req of Parsed members \<Rightarrow> members | Unparsable err \<Rightarrow> [])"

text \<open>
  The request as the routes receive it, with its body attached, and as the audit logger
  of a protected prefix receives it: the mount path stripped, the decoded payload
  attached.
\<close>

definition routed :: "request \<Rightarrow> request" where
  "routed req = (fresh req)\<lparr>req_body := parsed_body req\<rparr>"

definition forwarded :: "request \<Rightarrow> string list \<Rightarrow> (string \<times> json) list \<Rightarrow> request" where
  "forwarded req rest u = (routed req)\<lparr>req_url := rest, req_user := Some u\<rparr>"

text \<open>
  The same request as its proxy hands it to the upstream and to its own handlers:
  \<^verbatim>\<open>req.url\<close> is the whole path again.
\<close>

definition proxied :: "request \<Rightarrow> (string \<times> json) list \<Rightarrow> request" where
  "proxied req u = (routed req)\<lparr>req_user := Some u, req_url := req_originalUrl req\<rparr>"

text \<open>
  A request that none of the routes between the body parsers and the error handler
  takes.
\<close>

fun takes :: "layer \<Rightarrow> request \<Rightarrow> bool" where
  "takes (Layer mt ms) req = matches mt req"
| "takes (ErrorHandler h) req = False"

definition unrouted :: "deps \<Rightarrow> request \<Rightarrow> bool" where
  "unrouted d req = list_all (\<lambda>layer. \<not> takes layer req) (butlast (drop 3 (app d)))"

text \<open>
  The errors the validators of lines 226-228 record for a token request, in the order
  in which the validators run.
\<close>

definition token_errors :: "request \<Rightarrow> verror list" where
  "token_errors req =
     violations (\<lambda>s. s = ''client_credentials'') ''grant_type'' ''Invalid value'' (parsed_body req) @
     violations (\<lambda>s. s \<noteq> []) ''client_id'' ''Invalid value'' (parsed_body req) @
     violations (\<lambda>s. s \<noteq> []) ''client_secret'' ''Invalid value'' (parsed_body req)"

text \<open>A member that is a JSON string, or absent; and its text.\<close>

fun textual :: "json \<Rightarrow> bool" where
  "textual JUndefined = True"
| "textual (JStr s) = True"
| "textual v = False"

definition body_value :: "request \<Rightarrow> string \<Rightarrow> string" where
  "body_value req f = validator_text (field (parsed_body req) f)"

text \<open>
  The members of a token request with textual members that fail the validators, and
  the error each of them is recorded with.
\<close>

definition failing_fields :: "request \<Rightarrow> string list" where
  "failing_fields req =
     (if body_value req ''grant_type'' = ''client_credentials'' then [] else [''grant_type'']) @
     (if body_value req ''client_id'' = [] then [''client_id''] else []) @
     (if body_value req ''client_secret'' = [] then [''client_secret''] else [])"

definition invalid_value :: "request \<Rightarrow> string \<Rightarrow> verror" where
  "invalid_value req f =
     \<lparr>ve_value = field (parsed_body req) f, ve_msg = ''Invalid value'', ve_param = f\<rparr>"

text \<open>Whether a request carries a token that \<^verbatim>\<open>jwt.verify\<close> accepts.\<close>

definition verified :: "deps \<Rightarrow> request \<Rightarrow> bool" where
  "verified d req =
     (case header_token (header req ''authorization'') of
        None \<Rightarrow> False
      | Some token \<Rightarrow>
          token \<noteq> [] \<and>
          (case jwt_verify (d_jwt d) token (jwt_secret (d_env d)) (req_now req div 1000) of
             Inl err \<Rightarrow> False
           | Inr user \<Rightarrow> True))"

subsection \<open>The contract of the token library, and a reference implementation\<close>

text \<open>
  Modelled from the spec: what \<^verbatim>\<open>jsonwebtoken\<close>, a package whose code is not under src/,
  does when it signs and verifies (sections 3, 4.1 and 4.2: the claims get
  \<open>exp = now + TTL\<close>; validity is a function of signature and \<open>expires_at\<close> alone).
  What the gateway relies on from \<^verbatim>\<open>jsonwebtoken\<close>: a token is a non-empty text without
  spaces (the compact serialisation, three base64url parts joined by dots), and
  verifying what \<open>jwt_sign\<close> made, under the same secret, gives back the payload
  with \<^verbatim>\<open>iat\<close> and \<^verbatim>\<open>exp = iat + expiresIn\<close> added until the clock reaches \<^verbatim>\<open>exp\<close>, and
  the error \<^verbatim>\<open>jwt expired\<close> from then on. The payload is one the library can carry: its
  members are strings or numbers and it has no \<^verbatim>\<open>exp\<close> of its own.
\<close>

fun scalar :: "json \<Rightarrow> bool" where
  "scalar (JStr s) = True"
| "scalar (JNum n) = True"
| "scalar v = False"

definition plain :: "(string \<times> json) list \<Rightarrow> bool" where
  "plain payload = (list_all (\<lambda>kv. scalar (snd kv)) payload \<and> ''exp'' \<notin> fst ` set payload)"

definition wellformed :: "string \<Rightarrow> bool" where
  "wellformed token = (token \<noteq> [] \<and> CHR '' '' \<notin> set token)"

definition jwt_contract :: "jwt_lib \<Rightarrow> bool" where
  "jwt_contract J =
     (\<forall>payload secret ttl t now. plain payload \<longrightarrow>
        wellformed (jwt_sign J payload secret ttl t) \<and>
        jwt_verify J (jwt_sign J payload secret ttl t) secret now =
          (if t + ttl \<le> now then Inl ''jwt expired''
           else Inr (payload @ [(''iat'', JNum t), (''exp'', JNum (t + ttl))])))"

text \<open>
  A reference implementation that meets the contract, so that the contract is not an
  empty assumption and the gateway can be run on concrete requests. It is symbolic:
  the token spells out the secret and the claims in binary, separated by dots, where
  the real library has a signature.
\<close>

definition bit_char :: "bool \<Rightarrow> char" where
  "bit_char b = (if b then CHR ''1'' else CHR ''0'')"

fun enc_char :: "char \<Rightarrow> string" where
  "enc_char (Char b0 b1 b2 b3 b4 b5 b6 b7) = map bit_char [b0, b1, b2, b3, b4, b5, b6, b7]"

definition enc_str :: "string \<Rightarrow> string" where
  "enc_str s = concat (map enc_char s)"

fun dec_str :: "string \<Rightarrow> string" where
  "dec_str (b0 # b1 # b2 # b3 # b4 # b5 # b6 # b7 # rest) =
     Char (b0 = CHR ''1'') (b1 = CHR ''1'') (b2 = CHR ''1'') (b3 = CHR ''1'')
          (b4 = CHR ''1'') (b5 = CHR ''1'') (b6 = CHR ''1'') (b7 = CHR ''1'') # dec_str rest"
| "dec_str bits = []"

fun enc_nat :: "nat \<Rightarrow> string" where
  "enc_nat n = (if n = 0 then [] else bit_char (odd n) # enc_nat (n div 2))"

declare enc_nat.simps [simp del]

fun dec_nat :: "string \<Rightarrow> nat" where
  "dec_nat [] = 0"
| "dec_nat (b # bs) = (if b = CHR ''1'' then 1 else 0) + 2 * dec_nat bs"

fun enc_val :: "json \<Rightarrow> string" where
  "enc_val (JStr s) = CHR ''s'' # enc_str s"
| "enc_val (JNum n) = CHR ''n'' # enc_nat n"
| "enc_val v = ''u''"

fun dec_val :: "string \<Rightarrow> json" where
  "dec_val [] = JUndefined"
| "dec_val (c # cs) =
     (if c = CHR ''s'' then JStr (dec_str cs)
      else if c = CHR ''n'' then JNum (dec_nat cs)
      else JUndefined)"

fun enc_claims :: "(string \<times> json) list \<Rightarrow> string" where
  "enc_claims [] = []"
| "enc_claims ((k, v) # kvs) = CHR ''.'' # enc_str k @ CHR ''.'' # enc_val v @ enc_claims kvs"

fun dec_claims :: "string list \<Rightarrow> (string \<times> json) list" where
  "dec_claims (k # v # rest) = (dec_str k, dec_val v) # dec_claims rest"
| "dec_claims rest = []"

definition ref_sign :: "(string \<times> json) list \<Rightarrow> string \<Rightarrow> nat \<Rightarrow> nat \<Rightarrow> string" where
  "ref_sign payload secret ttl t =
     ''jwt.'' @ enc_str secret @
     enc_claims (payload @ [(''iat'', JNum t), (''exp'', JNum (t + ttl))])"

definition ref_verify :: "string \<Rightarrow> string \<Rightarrow> nat \<Rightarrow> string + (string \<times> json) list" where
  "ref_verify token secret now =
     (case split_on CHR ''.'' token of
        tag # key # rest \<Rightarrow>
          if tag \<noteq> ''jwt'' then Inl ''jwt malformed''
          else if dec_str key \<noteq> secret then Inl ''invalid signature''
          else (case field (dec_claims rest) ''exp'' of
                  JNum e \<Rightarrow> if e \<le> now then Inl ''jwt expired'' else Inr (dec_claims rest)
                | v \<Rightarrow> Inr (dec_claims rest))
      | pieces \<Rightarrow> Inl ''jwt malformed'')"

definition ref_jwt :: jwt_lib where
  "ref_jwt = \<lparr>jwt_sign = ref_sign, jwt_verify = ref_verify\<rparr>"


subsection \<open>Concrete requests\<close>

text \<open>
  A gateway with the default configuration (no environment variable set) and the
  reference token library, in front of an upstream that answers, one whose connection
  fails with a given error message, or one that stays silent; an empty world; a token
  request of client \<open>c1\<close> at clock 1000000 ms, and the token it is answered with.
\<close>

definition up_ok :: upstream where
  "up_ok target req = Replied \<lparr>status = 200, res_body = Text ''ok''\<rparr>"

definition up_refuses :: "string \<Rightarrow> upstream" where
  "up_refuses msg target req = Failed msg"

definition up_silent :: upstream where
  "up_silent target req = Silent"

definition demo :: "upstream \<Rightarrow> deps" where
  "demo up = \<lparr>d_env = [], d_jwt = ref_jwt, d_upstream = up\<rparr>"

definition w0 :: world where
  "w0 = \<lparr>logs = [], upstream_calls = [], hits = []\<rparr>"

definition request_at :: "http_method \<Rightarrow> string list \<Rightarrow> (string \<times> string) list \<Rightarrow> (string \<times> json) list \<Rightarrow> nat \<Rightarrow> request" where
  "request_at m path hs b t =
     \<lparr>req_method = m, req_originalUrl = path, req_url = path, req_ip = ''10.0.0.7'',
      req_headers = hs, req_raw = Parsed b, req_now = t, req_body = [], req_user = None,
      req_errors = []\<rparr>"

definition token_request :: request where
  "token_request =
     request_at POST [''oauth'', ''token''] []
       [(''grant_type'', JStr ''client_credentials''), (''client_id'', JStr ''c1''),
        (''client_secret'', JStr ''s1'')]
       1000000"

definition c1_payload :: "(string \<times> json) list" where
  "c1_payload =
     [(''client_id'', JStr ''c1''), (''scope'', JStr token_scope), (''iss'', JStr ''epic-ehr-gateway'')]"

definition c1_token :: string where
  "c1_token = ref_sign c1_payload ''fallback-secret'' 3600 1000"

definition c1_user :: "(string \<times> json) list" where
  "c1_user = c1_payload @ [(''iat'', JNum 1000), (''exp'', JNum 4600)]"




definition bearer :: "string \<Rightarrow> (string \<times> string) list" where
  "bearer token = [(''authorization'', ''Bearer '' @ token), (''user-agent'', ''curl/8.1.2'')]"

text \<open>The error \<^verbatim>\<open>express.json\<close> raises on the body \<^verbatim>\<open>{"grant_type":\<close>.\<close>

definition bad_json :: js_error where
  "bad_json =
     \<lparr>err_message = ''Unexpected end of JSON input'',
      err_stack = ''SyntaxError: Unexpected end of JSON input''\<rparr>"

subsection \<open>Successive requests of one caller\<close>


subsection \<open>Invariants of a layer\<close>

text \<open>
  A step keeps an observation \<open>f\<close> of the world for the requests in \<open>P\<close> when it leaves
  \<open>f\<close> as it was and hands on a request that is still in \<open>P\<close>, if it hands one on. A
  layer keeps \<open>f\<close> when its chain, entered with a request in \<open>P\<close>, does.
\<close>

definition settled :: "(request \<Rightarrow> bool) \<Rightarrow> (world \<Rightarrow> 'a) \<Rightarrow> world \<Rightarrow> outcome \<times> world \<Rightarrow> bool" where
  "settled P f v res =
     (f (snd res) = f v \<and>
      (case fst res of Next q \<Rightarrow> P q | Throw err q \<Rightarrow> P q | Done r \<Rightarrow> True | Pending \<Rightarrow> True))"

fun layer_keeps :: "(request \<Rightarrow> bool) \<Rightarrow> (world \<Rightarrow> 'a) \<Rightarrow> layer \<Rightarrow> bool" where
  "layer_keeps P f (Layer mt ms) = (\<forall>q v. P q \<longrightarrow> settled P f v (run_chain ms (enter mt q) v))"
| "layer_keeps P f (ErrorHandler h) = (\<forall>err q v. P q \<longrightarrow> settled P f v (h err q v))"

definition keeps :: "(request \<Rightarrow> bool) \<Rightarrow> (world \<Rightarrow> 'a) \<Rightarrow> middleware \<Rightarrow> bool" where
  "keeps P f m = (\<forall>q v. P q \<longrightarrow> settled P f v (m q v))"

section \<open>Properties\<close>

subsection \<open>Splitting and the token of a header\<close>

lemma split_on_no_sep: "sep \<notin> set a \<Longrightarrow> split_on sep a = [a]"
  by (induction a) (auto split: list.splits)

lemma split_on_append: "sep \<notin> set a \<Longrightarrow> split_on sep (a @ sep # rest) = a # split_on sep rest"
  by (induction a) (auto split: list.splits)

lemma header_token_scheme:
  "CHR '' '' \<notin> set s \<Longrightarrow> CHR '' '' \<notin> set t \<Longrightarrow> header_token (Some (s @ CHR '' '' # t)) = Some t"
  by (simp add: header_token_def split_on_append split_on_no_sep)

lemma header_token_no_space:
  "CHR '' '' \<notin> set h \<Longrightarrow> header_token (Some h) = (if h = [] then Some [] else None)"
  by (simp add: header_token_def split_on_no_sep)

subsection \<open>The reference token library meets the contract\<close>

lemma enc_char_bits: "set (enc_char c) \<subseteq> {CHR ''0'', CHR ''1''}"
  by (cases c) (auto simp: bit_char_def)

lemma enc_str_bits: "set (enc_str s) \<subseteq> {CHR ''0'', CHR ''1''}"
  using enc_char_bits by (fastforce simp: enc_str_def)

lemma enc_nat_bits: "set (enc_nat n) \<subseteq> {CHR ''0'', CHR ''1''}"
  by (induction n rule: enc_nat.induct) (subst enc_nat.simps, auto simp: bit_char_def)

lemma enc_val_bits: "set (enc_val v) \<subseteq> {CHR ''0'', CHR ''1'', CHR ''s'', CHR ''n'', CHR ''u''}"
  using enc_str_bits enc_nat_bits by (cases v) auto

lemma dec_enc_str: "dec_str (enc_str s) = s"
proof (induction s)
  case Nil
  show ?case by (simp add: enc_str_def)
next
  case (Cons c s)
  then show ?case by (cases c) (simp add: enc_str_def bit_char_def)
qed

lemma dec_enc_nat: "dec_nat (enc_nat n) = n"
proof (induction n rule: enc_nat.induct)
  case (1 n)
  show ?case
  proof (cases "n = 0")
    case True
    then show ?thesis by (simp add: enc_nat.simps)
  next
    case False
    with 1 have "dec_nat (enc_nat (n div 2)) = n div 2" by simp
    moreover have "n = (if odd n then 1 else 0) + 2 * (n div 2)"
      by presburger
    ultimately show ?thesis
      using False by (subst enc_nat.simps) (simp add: bit_char_def)
  qed
qed

lemma dec_enc_val: "scalar v \<Longrightarrow> dec_val (enc_val v) = v"
  by (cases v) (simp_all add: dec_enc_str dec_enc_nat)

lemma no_dot_str: "CHR ''.'' \<notin> set (enc_str s)"
  using enc_str_bits[of s] by auto

lemma no_dot_val: "CHR ''.'' \<notin> set (enc_val v)"
  using enc_val_bits[of v] by auto

lemma split_claims:
  "CHR ''.'' \<notin> set a \<Longrightarrow>
   split_on CHR ''.'' (a @ enc_claims kvs) =
     a # concat (map (\<lambda>kv. [enc_str (fst kv), enc_val (snd kv)]) kvs)"
proof (induction kvs arbitrary: a)
  case Nil
  then show ?case by (simp add: split_on_no_sep)
next
  case (Cons kv kvs)
  obtain k v where kv: "kv = (k, v)" by (cases kv)
  have "split_on CHR ''.'' (a @ enc_claims (kv # kvs)) =
        a # split_on CHR ''.'' (enc_str k @ CHR ''.'' # enc_val v @ enc_claims kvs)"
    using Cons.prems by (simp add: kv split_on_append)
  also have "split_on CHR ''.'' (enc_str k @ CHR ''.'' # enc_val v @ enc_claims kvs) =
        enc_str k # split_on CHR ''.'' (enc_val v @ enc_claims kvs)"
    by (simp add: split_on_append no_dot_str)
  also have "split_on CHR ''.'' (enc_val v @ enc_claims kvs) =
        enc_val v # concat (map (\<lambda>kv. [enc_str (fst kv), enc_val (snd kv)]) kvs)"
    by (rule Cons.IH) (rule no_dot_val)
  finally show ?case by (simp add: kv)
qed

lemma dec_claims_enc:
  "list_all (\<lambda>kv. scalar (snd kv)) kvs \<Longrightarrow>
   dec_claims (concat (map (\<lambda>kv. [enc_str (fst kv), enc_val (snd kv)]) kvs)) = kvs"
  by (induction kvs) (auto simp: dec_enc_str dec_enc_val)

lemma no_space_claims: "CHR '' '' \<notin> set (enc_claims kvs)"
proof (induction kvs)
  case Nil
  show ?case by simp
next
  case (Cons kv kvs)
  obtain k v where kv: "kv = (k, v)" by (cases kv)
  show ?case using Cons enc_str_bits[of k] enc_val_bits[of v] by (auto simp: kv)
qed

lemma ref_sign_wellformed: "wellformed (ref_sign payload secret ttl t)"
  using enc_str_bits[of secret] no_space_claims
  by (auto simp: wellformed_def ref_sign_def)

lemma field_exp:
  "''exp'' \<notin> fst ` set payload \<Longrightarrow>
   field (payload @ [(''iat'', JNum t), (''exp'', JNum e)]) ''exp'' = JNum e"
  by (simp add: field_def map_of_append map_of_eq_None_iff[THEN iffD2] map_add_def
           split: option.splits)

lemma ref_verify_sign:
  assumes "plain payload"
  shows "ref_verify (ref_sign payload secret ttl t) secret now =
     (if t + ttl \<le> now then Inl ''jwt expired''
      else Inr (payload @ [(''iat'', JNum t), (''exp'', JNum (t + ttl))]))"
proof -
  let ?claims = "payload @ [(''iat'', JNum t), (''exp'', JNum (t + ttl))]"
  have sc: "list_all (\<lambda>kv. scalar (snd kv)) ?claims"
    using assms by (simp add: plain_def)
  have "split_on CHR ''.'' (ref_sign payload secret ttl t) =
        ''jwt'' # split_on CHR ''.'' (enc_str secret @ enc_claims ?claims)"
    using split_on_append[of "CHR ''.''" "''jwt''"] by (simp add: ref_sign_def)
  also have "split_on CHR ''.'' (enc_str secret @ enc_claims ?claims) =
        enc_str secret # concat (map (\<lambda>kv. [enc_str (fst kv), enc_val (snd kv)]) ?claims)"
    by (rule split_claims) (rule no_dot_str)
  finally have sp: "split_on CHR ''.'' (ref_sign payload secret ttl t) =
        ''jwt'' # enc_str secret #
        concat (map (\<lambda>kv. [enc_str (fst kv), enc_val (snd kv)]) ?claims)" .
  have fe: "field ?claims ''exp'' = JNum (t + ttl)"
    using assms by (simp add: plain_def field_exp)
  show ?thesis
    unfolding ref_verify_def sp
    by (simp only: list.case dec_claims_enc[OF sc] dec_enc_str fe json.case) simp
qed

lemma ref_jwt_contract: "jwt_contract ref_jwt"
  by (simp add: jwt_contract_def ref_jwt_def ref_sign_wellformed ref_verify_sign)

subsection \<open>The authentication middleware and the walk through the stack\<close>

lemma auth_missing:
  "header req ''authorization'' = None \<Longrightarrow>
   authenticateToken d req w =
     (respond 401 (Json (JObj [(''error'', JStr ''Access token required'')])), w)"
  by (simp add: authenticateToken_def header_token_def)

lemma auth_invalid:
  "header_token (header req ''authorization'') = Some token \<Longrightarrow> token \<noteq> [] \<Longrightarrow>
   jwt_verify (d_jwt d) token (jwt_secret (d_env d)) (req_now req div 1000) = Inl err \<Longrightarrow>
   authenticateToken d req w =
     (respond 403 (Json (JObj [(''error'', JStr ''Invalid or expired token'')])),
      logger Error ''JWT verification failed'' (JObj [(''error'', JStr err)]) w)"
  by (simp add: authenticateToken_def)

lemma auth_ok:
  "header_token (header req ''authorization'') = Some token \<Longrightarrow> token \<noteq> [] \<Longrightarrow>
   jwt_verify (d_jwt d) token (jwt_secret (d_env d)) (req_now req div 1000) = Inr user \<Longrightarrow>
   authenticateToken d req w = (Next (req\<lparr>req_user := Some user\<rparr>), w)"
  by (simp add: authenticateToken_def)

lemma auth_unverified:
  "\<not> verified d req \<Longrightarrow>
   \<exists>r w'. authenticateToken d req w = (Done r, w') \<and> upstream_calls w' = upstream_calls w"
  by (auto simp: verified_def authenticateToken_def respond_def logger_def
           split: option.splits sum.splits)

lemma protected_cases:
  "p \<in> set protected_prefixes \<Longrightarrow> p = ''fhir'' \<or> p = ''hl7'' \<or> p = ''epic'' \<or> p = ''audit''"
  by (simp add: protected_prefixes_def)

lemma proxy_result:
  "createProxyMiddleware opts a (onError l c) up req w =
     (case up (px_target opts) (req\<lparr>req_url := req_originalUrl req\<rparr>) of
        Replied r \<Rightarrow> (Done r, snd (createProxyMiddleware opts a (onError l c) up req w))
      | Failed err \<Rightarrow>
          (Done \<lparr>status = 502,
                 res_body = Json (JObj [(''error'', JStr c), (''message'', JStr err)])\<rparr>,
           snd (createProxyMiddleware opts a (onError l c) up req w))
      | Silent \<Rightarrow> (Pending, snd (createProxyMiddleware opts a (onError l c) up req w)))"
  by (simp add: createProxyMiddleware_def onError_def respond_def Let_def
           split: upstream_result.splits)

lemma proxy_ends:
  "(\<exists>r w'. createProxyMiddleware opts a (onError l c) up req w = (Done r, w')) \<or>
   (\<exists>w'. createProxyMiddleware opts a (onError l c) up req w = (Pending, w'))"
  by (simp add: createProxyMiddleware_def onError_def respond_def Let_def
           split: upstream_result.splits)

lemma proxy_at_ends:
  "(\<exists>r w'. proxy_at d p req w = (Done r, w')) \<or> (\<exists>w'. proxy_at d p req w = (Pending, w'))"
  by (simp add: proxy_at_def fhir_proxy_def hl7_proxy_def epic_proxy_def audit_proxy_def proxy_ends)

lemma app_layers:
  "app d = Layer (Use []) [cors] # Layer (Use []) [limiter] # drop 2 (app d)"
  "drop 2 (app d) = Layer (Use []) [express_json] # drop 3 (app d)"
  by (simp_all add: app_def)

lemma gateway_options:
  "req_method req = OPTIONS \<Longrightarrow> gateway d req w = (Some \<lparr>status = 204, res_body = NoBody\<rparr>, w)"
  by (subst gateway_def, subst app_layers(1)) (simp add: fresh_def cors_def respond_def)

lemma gateway_throttled:
  "req_method req \<noteq> OPTIONS \<Longrightarrow> admit (req_now req) (req_ip req) (hits w) = (False, store) \<Longrightarrow>
   gateway d req w = (Some \<lparr>status = 429, res_body = Text limit_message\<rparr>, w\<lparr>hits := store\<rparr>)"
  by (subst gateway_def, subst app_layers(1)) (simp add: fresh_def cors_def limiter_def respond_def)

lemma gateway_admitted:
  "req_method req \<noteq> OPTIONS \<Longrightarrow> admit (req_now req) (req_ip req) (hits w) = (True, store) \<Longrightarrow>
   gateway d req w = dispatch (drop 2 (app d)) (fresh req) (w\<lparr>hits := store\<rparr>)"
  by (subst gateway_def, subst app_layers(1)) (simp add: fresh_def cors_def limiter_def)

lemma gateway_routes:
  "req_method req \<noteq> OPTIONS \<Longrightarrow> admit (req_now req) (req_ip req) (hits w) = (True, store) \<Longrightarrow>
   parses req \<Longrightarrow>
   gateway d req w = dispatch (drop 3 (app d)) (routed req) (w\<lparr>hits := store\<rparr>)"
  by (simp add: gateway_admitted, subst app_layers(2))
     (simp add: express_json_def parses_def routed_def parsed_body_def fresh_def
        split: raw_body.splits)

lemma gateway_unparsable:
  "req_method req \<noteq> OPTIONS \<Longrightarrow> admit (req_now req) (req_ip req) (hits w) = (True, store) \<Longrightarrow>
   req_raw req = Unparsable err \<Longrightarrow>
   gateway d req w =
     (Some \<lparr>status = 500,
            res_body = Json (JObj [(''error'', JStr ''Internal server error''),
                                   (''requestId'',
                                      or_else (opt_str (header req ''x-request-id''))
                                              (JStr (decimal (req_now req))))])\<rparr>,
      logger Error ''Unhandled error''
        (JObj [(''error'', JStr (err_message err)),
               (''stack'', JStr (err_stack err)),
               (''url'', JStr (url_text (req_originalUrl req))),
               (''method'', JStr (method_name (req_method req)))]) (w\<lparr>hits := store\<rparr>))"
  by (simp add: gateway_admitted, simp add: app_def express_json_def fresh_def error_handler_def
        respond_def header_def)

lemma routes_protected:
  assumes "req_originalUrl q = p # rest" "p \<in> set protected_prefixes"
  shows "run_chain [authenticateToken d, auditLogger, proxy_at d p] (q\<lparr>req_url := rest\<rparr>) v = (Done r, v') \<Longrightarrow>
           dispatch (drop 3 (app d)) q v = (Some r, v')"
    and "run_chain [authenticateToken d, auditLogger, proxy_at d p] (q\<lparr>req_url := rest\<rparr>) v = (Pending, v') \<Longrightarrow>
           dispatch (drop 3 (app d)) q v = (None, v')"
  using protected_cases[OF assms(2)] assms(1)
  by (elim disjE; simp add: app_def proxy_at_def del: run_chain.simps)+

lemma gateway_protected_rejected:
  assumes "req_originalUrl req = p # rest" "p \<in> set protected_prefixes"
      "req_method req \<noteq> OPTIONS" "admit (req_now req) (req_ip req) (hits w) = (True, store)"
      "parses req"
      "authenticateToken d ((routed req)\<lparr>req_url := rest\<rparr>) (w\<lparr>hits := store\<rparr>) = (Done r, w')"
  shows "gateway d req w = (Some r, w')"
proof -
  have "req_originalUrl (routed req) = p # rest"
    using assms(1) by (simp add: routed_def fresh_def)
  from routes_protected(1)[OF this assms(2), of d "w\<lparr>hits := store\<rparr>" r w'] assms(6) show ?thesis
    by (simp add: gateway_routes[OF assms(3,4,5)])
qed

lemma gateway_protected_passed:
  assumes "req_originalUrl req = p # rest" "p \<in> set protected_prefixes"
      "req_method req \<noteq> OPTIONS" "admit (req_now req) (req_ip req) (hits w) = (True, store)"
      "parses req"
      "authenticateToken d ((routed req)\<lparr>req_url := rest\<rparr>) (w\<lparr>hits := store\<rparr>) = (Next req', w')"
  shows "proxy_at d p req' (logger Info ''API Access'' (auditData req') w') = (Done r, w'') \<Longrightarrow>
           gateway d req w = (Some r, w'')"
    and "proxy_at d p req' (logger Info ''API Access'' (auditData req') w') = (Pending, w'') \<Longrightarrow>
           gateway d req w = (None, w'')"
proof -
  have o: "req_originalUrl (routed req) = p # rest"
    using assms(1) by (simp add: routed_def fresh_def)
  show "proxy_at d p req' (logger Info ''API Access'' (auditData req') w') = (Done r, w'') \<Longrightarrow>
           gateway d req w = (Some r, w'')"
    using routes_protected(1)[OF o assms(2), of d "w\<lparr>hits := store\<rparr>" r w''] assms(6)
    by (simp add: gateway_routes[OF assms(3,4,5)] auditLogger_def)
  show "proxy_at d p req' (logger Info ''API Access'' (auditData req') w') = (Pending, w'') \<Longrightarrow>
           gateway d req w = (None, w'')"
    using routes_protected(2)[OF o assms(2), of d "w\<lparr>hits := store\<rparr>" w''] assms(6)
    by (simp add: gateway_routes[OF assms(3,4,5)] auditLogger_def)
qed

lemma dispatch_invariant:
  assumes url: "\<And>q u. P (q\<lparr>req_url := u\<rparr>) = P q"
  shows "list_all (layer_keeps P f) layers \<Longrightarrow>
     (\<forall>req w. P req \<longrightarrow> f (snd (dispatch layers req w)) = f w) \<and>
     (\<forall>err req w. P req \<longrightarrow> f (snd (on_error err layers req w)) = f w)"
proof (induction layers)
  case Nil
  show ?case by simp
next
  case (Cons layer layers)
  then have d: "\<And>q v. P q \<Longrightarrow> f (snd (dispatch layers q v)) = f v"
    and e: "\<And>err q v. P q \<Longrightarrow> f (snd (on_error err layers q v)) = f v"
    by simp_all
  show ?case
  proof (cases layer)
    case (Layer mt ms)
    have "f (snd (dispatch (Layer mt ms # layers) req w)) = f w" if p: "P req" for req w
    proof (cases "matches mt req")
      case False
      then show ?thesis using d[OF p] by simp
    next
      case True
      obtain x w' where rc: "run_chain ms (enter mt req) w = (x, w')"
        by (cases "run_chain ms (enter mt req) w")
      have st: "settled P f w (x, w')"
        using Cons.prems p rc by (simp add: Layer) (metis rc)
      show ?thesis
      proof (cases x)
        case (Next q)
        then show ?thesis using st rc True d[of q w'] by (simp add: settled_def)
      next
        case (Done r)
        then show ?thesis using st rc True by (simp add: settled_def)
      next
        case (Throw err q)
        then show ?thesis
          using st rc True e[of "q\<lparr>req_url := req_originalUrl q\<rparr>" err w'] url
          by (simp add: settled_def)
      next
        case Pending
        then show ?thesis using st rc True by (simp add: settled_def)
      qed
    qed
    then show ?thesis using e by (simp add: Layer)
  next
    case (ErrorHandler h)
    have "f (snd (on_error err (ErrorHandler h # layers) req w)) = f w" if p: "P req" for err req w
    proof -
      obtain x w' where rc: "h err req w = (x, w')" by (cases "h err req w")
      have st: "settled P f w (x, w')"
        using Cons.prems p rc by (simp add: ErrorHandler) (metis rc)
      show ?thesis
      proof (cases x)
        case (Next q)
        then show ?thesis using st rc d[of q w'] by (simp add: settled_def)
      next
        case (Done r)
        then show ?thesis using st rc by (simp add: settled_def)
      next
        case (Throw err' q)
        then show ?thesis using st rc e[of q err' w'] by (simp add: settled_def)
      next
        case Pending
        then show ?thesis using st rc by (simp add: settled_def)
      qed
    qed
    then show ?thesis using d by (simp add: ErrorHandler)
  qed
qed

lemma chain_keeps:
  assumes "list_all (keeps P f) ms"
  shows "P q \<Longrightarrow> settled P f v (run_chain ms q v)"
  using assms
proof (induction ms arbitrary: q v)
  case Nil
  then show ?case by (simp add: settled_def)
next
  case (Cons m ms)
  obtain x w' where m: "m q v = (x, w')" by (cases "m q v")
  have st: "settled P f v (x, w')"
    using Cons.prems m by (simp add: keeps_def) (metis m)
  show ?case
  proof (cases x)
    case (Next q')
    then have "P q'" "f w' = f v" using st by (simp_all add: settled_def)
    moreover from Cons.IH[OF \<open>P q'\<close>, of w'] Cons.prems
    have "settled P f w' (run_chain ms q' w')" by simp
    ultimately show ?thesis using m Next by (simp add: settled_def)
  next
    case (Done r)
    then show ?thesis using st m by (simp add: settled_def)
  next
    case (Throw err q')
    then show ?thesis using st m by (simp add: settled_def)
  next
    case Pending
    then show ?thesis using st m by (simp add: settled_def)
  qed
qed

lemma layer_keeps_chain:
  assumes "list_all (keeps P f) ms" "\<And>q. P q \<Longrightarrow> P (enter mt q)"
  shows "layer_keeps P f (Layer mt ms)"
  using chain_keeps[OF assms(1)] assms(2) by simp

lemma enter_verified: "verified d (enter mt q) = verified d q"
  by (cases mt) (simp_all add: verified_def header_def cong: option.case_cong)

lemma keeps_auth_first:
  "layer_keeps (\<lambda>q. \<not> verified d q) upstream_calls (Layer mt (authenticateToken d # ms))"
proof -
  have "settled (\<lambda>q. \<not> verified d q) upstream_calls v
          (run_chain (authenticateToken d # ms) (enter mt q) v)" if "\<not> verified d q" for q v
  proof -
    from that have "\<not> verified d (enter mt q)" by (simp add: enter_verified)
    from auth_unverified[OF this, of v] obtain r w' where
      "authenticateToken d (enter mt q) v = (Done r, w')" "upstream_calls w' = upstream_calls v"
      by blast
    then show ?thesis by (simp add: settled_def)
  qed
  then show ?thesis by simp
qed

lemma unverified_keeps:
  "keeps (\<lambda>q. \<not> verified d q) upstream_calls cors"
  "keeps (\<lambda>q. \<not> verified d q) upstream_calls limiter"
  "keeps (\<lambda>q. \<not> verified d q) upstream_calls express_json"
  "keeps (\<lambda>q. \<not> verified d q) upstream_calls (health d)"
  "keeps (\<lambda>q. \<not> verified d q) upstream_calls not_found"
  "keeps (\<lambda>q. \<not> verified d q) upstream_calls (validate ok f msg)"
  "keeps (\<lambda>q. \<not> verified d q) upstream_calls (oauth_token d)"
  by (simp_all add: keeps_def settled_def cors_def limiter_def express_json_def health_def
        not_found_def validate_def oauth_token_def validation_failed_def respond_def logger_def
        verified_def header_def
        split: prod.splits raw_body.splits cong: option.case_cong)

lemma unverified_error_handler:
  "layer_keeps (\<lambda>q. \<not> verified d q) upstream_calls (ErrorHandler error_handler)"
  by (simp add: settled_def error_handler_def respond_def logger_def)

lemma upstream_only_verified:
  "\<not> verified d req \<Longrightarrow> upstream_calls (snd (gateway d req w)) = upstream_calls w"
proof -
  assume nv: "\<not> verified d req"
  let ?P = "\<lambda>q. \<not> verified d q"
  have start: "?P (fresh req)"
    using nv by (simp add: fresh_def verified_def header_def cong: option.case_cong)
  have url: "\<And>q u. ?P (q\<lparr>req_url := u\<rparr>) = ?P q"
    by (simp add: verified_def header_def cong: option.case_cong)
  have "list_all (layer_keeps ?P upstream_calls) (app d)"
    unfolding app_def body_equals_def body_notEmpty_def list.pred_inject
    by (intro conjI keeps_auth_first unverified_error_handler layer_keeps_chain TrueI)
       (simp_all only: list.pred_inject unverified_keeps enter_verified simp_thms)
  from dispatch_invariant[of ?P, OF url this] start show ?thesis
    by (simp add: gateway_def)
qed




subsection \<open>The concrete token\<close>

lemma c1_plain: "plain c1_payload"
  by (simp add: plain_def c1_payload_def)

lemma c1_token_wellformed: "wellformed c1_token"
  by (simp add: c1_token_def ref_sign_wellformed)

lemma c1_token_verify:
  "jwt_verify (d_jwt (demo up)) c1_token (jwt_secret (d_env (demo up))) now =
     (if 4600 \<le> now then Inl ''jwt expired'' else Inr c1_user)"
  using ref_verify_sign[OF c1_plain, of "''fallback-secret''" 3600 1000 now]
  by (simp add: c1_token_def c1_user_def demo_def ref_jwt_def jwt_secret_def env_or_def)

lemma admit_first:
  "admit t ip [] = (True, [(ip, \<lparr>count = 1, window_start = t\<rparr>)])"
  by (simp add: admit_def current_window_def max_requests_def)

subsection \<open>C10: the scheme word of the Authorization header\<close>

text \<open>
  Claim C10. The Auth Gate splits the header value on spaces and takes the second
  component, without looking at the first. For a token \<open>t\<close> that the library accepts
  and any scheme word \<open>s\<close> without a space, a request whose header is \<open>s t\<close> passes
  with the decoded payload attached, exactly as the request with \<open>Bearer t\<close> does; a
  header value without any space (a bare token, the word \<open>Bearer\<close> alone) is answered
  401, not 403.
\<close>

theorem scheme_word_ignored:
  "(CHR '' '' \<notin> set s \<and> CHR '' '' \<notin> set t \<and> t \<noteq> [] \<and>
    header req ''authorization'' = Some (s @ CHR '' '' # t) \<and>
    header req' ''authorization'' = Some (''Bearer'' @ CHR '' '' # t) \<and>
    req_now req' = req_now req \<and>
    jwt_verify (d_jwt d) t (jwt_secret (d_env d)) (req_now req div 1000) = Inr u
    \<longrightarrow> authenticateToken d req w = (Next (req\<lparr>req_user := Some u\<rparr>), w) \<and>
        authenticateToken d req' w = (Next (req'\<lparr>req_user := Some u\<rparr>), w)) \<and>
   (CHR '' '' \<notin> set h \<and> header req ''authorization'' = Some h
    \<longrightarrow> authenticateToken d req w =
          (respond 401 (Json (JObj [(''error'', JStr ''Access token required'')])), w))"
proof (intro conjI impI)
  assume a: "CHR '' '' \<notin> set s \<and> CHR '' '' \<notin> set t \<and> t \<noteq> [] \<and>
    header req ''authorization'' = Some (s @ CHR '' '' # t) \<and>
    header req' ''authorization'' = Some (''Bearer'' @ CHR '' '' # t) \<and>
    req_now req' = req_now req \<and>
    jwt_verify (d_jwt d) t (jwt_secret (d_env d)) (req_now req div 1000) = Inr u"
  then have "header_token (header req ''authorization'') = Some t"
    by (simp add: header_token_scheme)
  with a show "authenticateToken d req w = (Next (req\<lparr>req_user := Some u\<rparr>), w)"
    by (simp add: auth_ok)
  have "CHR '' '' \<notin> set ''Bearer''" by simp
  with a have "header_token (header req' ''authorization'') = Some t"
    using header_token_scheme[of "''Bearer''" t] by simp
  with a show "authenticateToken d req' w = (Next (req'\<lparr>req_user := Some u\<rparr>), w)"
    by (simp add: auth_ok)
next
  assume "CHR '' '' \<notin> set h \<and> header req ''authorization'' = Some h"
  then show "authenticateToken d req w =
          (respond 401 (Json (JObj [(''error'', JStr ''Access token required'')])), w)"
    by (simp add: authenticateToken_def header_token_no_space)
qed

theorem scheme_word_ignored_witness:
  "authenticateToken (demo up_ok)
     (request_at GET [''Patient''] [(''authorization'', ''Basic '' @ c1_token)] [] 2000000) w0 =
     (Next ((request_at GET [''Patient''] [(''authorization'', ''Basic '' @ c1_token)] [] 2000000)
              \<lparr>req_user := Some c1_user\<rparr>), w0) \<and>
   authenticateToken (demo up_ok) (request_at GET [''Patient''] (bearer c1_token) [] 2000000) w0 =
     (Next ((request_at GET [''Patient''] (bearer c1_token) [] 2000000)
              \<lparr>req_user := Some c1_user\<rparr>), w0) \<and>
   authenticateToken (demo up_ok)
     (request_at GET [''Patient''] [(''authorization'', ''Bearer'')] [] 2000000) w0 =
     (respond 401 (Json (JObj [(''error'', JStr ''Access token required'')])), w0)"
  using scheme_word_ignored[where s = "''Basic''" and t = c1_token and d = "demo up_ok"
          and req = "request_at GET [''Patient''] [(''authorization'', ''Basic '' @ c1_token)] [] 2000000"
          and req' = "request_at GET [''Patient''] (bearer c1_token) [] 2000000"
          and u = c1_user and w = w0 and h = "''x''"]
        scheme_word_ignored[where h = "''Bearer''" and d = "demo up_ok" and w = w0
          and req = "request_at GET [''Patient''] [(''authorization'', ''Bearer'')] [] 2000000"
          and s = "[]" and t = "[]"]
        c1_token_wellformed c1_token_verify[of up_ok 2000]
  by (simp add: wellformed_def header_def request_at_def bearer_def)

subsection \<open>C4: protected routes\<close>

text \<open>
  Claim C4. For a request to a protected prefix (\<open>/fhir\<close>, \<open>/hl7\<close>, \<open>/epic\<close>,
  \<open>/audit\<close>) that CORS, the rate limiter and the body parsers pass on: without an
  Authorization header the gateway answers 401 \<open>Access token required\<close> and the world
  is untouched but for the limiter's count, so no upstream is called; with a token that
  \<^verbatim>\<open>jwt.verify\<close> rejects, whatever the reason, it answers 403 and calls no upstream. And
  for every request whatsoever, an upstream is called only if the request carries a
  verified token. The three layers in front of the Auth Gate answer on their own: an
  \<^verbatim>\<open>OPTIONS\<close> request gets 204, a request over the rate limit 429, and a request whose
  body does not parse 500.
\<close>

theorem protected_routes_gate:
  "(req_originalUrl req = p # rest \<and> p \<in> set protected_prefixes \<and> req_method req \<noteq> OPTIONS \<and>
    admit (req_now req) (req_ip req) (hits w) = (True, store) \<and> parses req \<longrightarrow>
      (header req ''authorization'' = None \<longrightarrow>
         gateway d req w =
           (Some \<lparr>status = 401, res_body = Json (JObj [(''error'', JStr ''Access token required'')])\<rparr>,
            w\<lparr>hits := store\<rparr>)) \<and>
      (header_token (header req ''authorization'') = Some token \<and> token \<noteq> [] \<and>
       jwt_verify (d_jwt d) token (jwt_secret (d_env d)) (req_now req div 1000) = Inl err \<longrightarrow>
         fst (gateway d req w) =
           Some \<lparr>status = 403, res_body = Json (JObj [(''error'', JStr ''Invalid or expired token'')])\<rparr> \<and>
         upstream_calls (snd (gateway d req w)) = upstream_calls w)) \<and>
   (\<not> verified d req \<longrightarrow> upstream_calls (snd (gateway d req w)) = upstream_calls w) \<and>
   (req_method req = OPTIONS \<longrightarrow>
      gateway d req w = (Some \<lparr>status = 204, res_body = NoBody\<rparr>, w)) \<and>
   (req_method req \<noteq> OPTIONS \<and> admit (req_now req) (req_ip req) (hits w) = (False, store) \<longrightarrow>
      gateway d req w = (Some \<lparr>status = 429, res_body = Text limit_message\<rparr>, w\<lparr>hits := store\<rparr>)) \<and>
   (req_method req \<noteq> OPTIONS \<and> admit (req_now req) (req_ip req) (hits w) = (True, store) \<and>
    req_raw req = Unparsable e \<longrightarrow>
      fst (gateway d req w) =
        Some \<lparr>status = 500,
              res_body = Json (JObj [(''error'', JStr ''Internal server error''),
                                     (''requestId'',
                                        or_else (opt_str (header req ''x-request-id''))
                                                (JStr (decimal (req_now req))))])\<rparr> \<and>
      upstream_calls (snd (gateway d req w)) = upstream_calls w)"
proof (intro conjI impI)
  assume a: "req_originalUrl req = p # rest \<and> p \<in> set protected_prefixes \<and>
    req_method req \<noteq> OPTIONS \<and> admit (req_now req) (req_ip req) (hits w) = (True, store) \<and>
    parses req"
  let ?q = "(routed req)\<lparr>req_url := rest\<rparr>"
  {
    assume "header req ''authorization'' = None"
    then have "header ?q ''authorization'' = None" by (simp add: header_def routed_def fresh_def)
    from auth_missing[OF this] a
    show "gateway d req w =
           (Some \<lparr>status = 401, res_body = Json (JObj [(''error'', JStr ''Access token required'')])\<rparr>,
            w\<lparr>hits := store\<rparr>)"
      using gateway_protected_rejected[of req p rest w store d]
      by (simp add: respond_def)
  }
  {
    assume b: "header_token (header req ''authorization'') = Some token \<and> token \<noteq> [] \<and>
       jwt_verify (d_jwt d) token (jwt_secret (d_env d)) (req_now req div 1000) = Inl err"
    then have "header_token (header ?q ''authorization'') = Some token" "token \<noteq> []"
      "jwt_verify (d_jwt d) token (jwt_secret (d_env d)) (req_now ?q div 1000) = Inl err"
      by (simp_all add: header_def routed_def fresh_def)
    from auth_invalid[OF this] a
    have g: "gateway d req w =
       (Some \<lparr>status = 403, res_body = Json (JObj [(''error'', JStr ''Invalid or expired token'')])\<rparr>,
        logger Error ''JWT verification failed'' (JObj [(''error'', JStr err)]) (w\<lparr>hits := store\<rparr>))"
      using gateway_protected_rejected[of req p rest w store d]
      by (simp add: respond_def)
    show "fst (gateway d req w) =
           Some \<lparr>status = 403, res_body = Json (JObj [(''error'', JStr ''Invalid or expired token'')])\<rparr>"
      by (simp add: g)
    show "upstream_calls (snd (gateway d req w)) = upstream_calls w"
      by (simp add: g logger_def)
  }
next
  assume "\<not> verified d req"
  then show "upstream_calls (snd (gateway d req w)) = upstream_calls w"
    by (rule upstream_only_verified)
next
  assume "req_method req = OPTIONS"
  then show "gateway d req w = (Some \<lparr>status = 204, res_body = NoBody\<rparr>, w)"
    by (rule gateway_options)
next
  assume "req_method req \<noteq> OPTIONS \<and> admit (req_now req) (req_ip req) (hits w) = (False, store)"
  then show "gateway d req w =
      (Some \<lparr>status = 429, res_body = Text limit_message\<rparr>, w\<lparr>hits := store\<rparr>)"
    by (simp add: gateway_throttled)
next
  assume u: "req_method req \<noteq> OPTIONS \<and> admit (req_now req) (req_ip req) (hits w) = (True, store) \<and>
    req_raw req = Unparsable e"
  then show "fst (gateway d req w) =
        Some \<lparr>status = 500,
              res_body = Json (JObj [(''error'', JStr ''Internal server error''),
                                     (''requestId'',
                                        or_else (opt_str (header req ''x-request-id''))
                                                (JStr (decimal (req_now req))))])\<rparr>"
    by (simp add: gateway_unparsable)
  from u show "upstream_calls (snd (gateway d req w)) = upstream_calls w"
    by (simp add: gateway_unparsable logger_def)
qed

theorem protected_routes_gate_witness:
  "gateway (demo up_ok) (request_at GET [''fhir'', ''Patient''] [] [] 2000000) w0 =
     (Some \<lparr>status = 401, res_body = Json (JObj [(''error'', JStr ''Access token required'')])\<rparr>,
      w0\<lparr>hits := [(''10.0.0.7'', \<lparr>count = 1, window_start = 2000000\<rparr>)]\<rparr>) \<and>
   fst (gateway (demo up_ok) (request_at GET [''fhir'', ''Patient''] (bearer c1_token) [] 4601000) w0) =
     Some \<lparr>status = 403, res_body = Json (JObj [(''error'', JStr ''Invalid or expired token'')])\<rparr> \<and>
   upstream_calls
     (snd (gateway (demo up_ok) (request_at GET [''fhir'', ''Patient''] (bearer c1_token) [] 4601000) w0)) = [] \<and>
   upstream_calls
     (snd (gateway (demo up_ok) (request_at POST [''hl7'', ''message''] [] [] 2000000) w0)) = [] \<and>
   gateway (demo up_ok) (request_at OPTIONS [''epic'', ''health''] [] [] 2000000) w0 =
     (Some \<lparr>status = 204, res_body = NoBody\<rparr>, w0) \<and>
   gateway (demo up_ok) (request_at GET [''epic'', ''health''] [] [] 2000000)
       (w0\<lparr>hits := [(''10.0.0.7'', \<lparr>count = 100, window_start = 1900000\<rparr>)]\<rparr>) =
     (Some \<lparr>status = 429, res_body = Text limit_message\<rparr>,
      w0\<lparr>hits := [(''10.0.0.7'', \<lparr>count = 101, window_start = 1900000\<rparr>),
                   (''10.0.0.7'', \<lparr>count = 100, window_start = 1900000\<rparr>)]\<rparr>) \<and>
   fst (gateway (demo up_ok)
          ((request_at POST [''epic'', ''sync''] [(''x-request-id'', ''r-9'')] [] 2000000)
             \<lparr>req_raw := Unparsable bad_json\<rparr>) w0) =
     Some \<lparr>status = 500,
           res_body = Json (JObj [(''error'', JStr ''Internal server error''),
                                  (''requestId'', JStr ''r-9'')])\<rparr>"
proof -
  have t: "header_token (Some (''Bearer '' @ c1_token)) = Some c1_token"
    using header_token_scheme[of "''Bearer''" c1_token] c1_token_wellformed
    by (simp add: wellformed_def)
  have full: "admit 2000000 ''10.0.0.7'' [(''10.0.0.7'', \<lparr>count = 100, window_start = 1900000\<rparr>)] =
          (False, [(''10.0.0.7'', \<lparr>count = 101, window_start = 1900000\<rparr>),
                   (''10.0.0.7'', \<lparr>count = 100, window_start = 1900000\<rparr>)])"
    by (simp add: admit_def current_window_def windowMs_def max_requests_def)
  show ?thesis
    using protected_routes_gate[where req = "request_at GET [''fhir'', ''Patient''] [] [] 2000000"
            and p = "''fhir''" and rest = "[''Patient'']" and w = w0 and d = "demo up_ok"
            and store = "[(''10.0.0.7'', \<lparr>count = 1, window_start = 2000000\<rparr>)]"
            and token = "[]" and err = "[]"]
          protected_routes_gate[where req = "request_at GET [''fhir'', ''Patient''] (bearer c1_token) [] 4601000"
            and p = "''fhir''" and rest = "[''Patient'']" and w = w0 and d = "demo up_ok"
            and store = "[(''10.0.0.7'', \<lparr>count = 1, window_start = 4601000\<rparr>)]"
            and token = c1_token and err = "''jwt expired''"]
          protected_routes_gate[where req = "request_at POST [''hl7'', ''message''] [] [] 2000000"
            and w = w0 and d = "demo up_ok" and p = "[]" and rest = "[]" and store = "[]"
            and token = "[]" and err = "[]"]
          protected_routes_gate[where req = "request_at OPTIONS [''epic'', ''health''] [] [] 2000000"
            and w = w0 and d = "demo up_ok" and p = "[]" and rest = "[]" and store = "[]"
            and token = "[]" and err = "[]"]
          protected_routes_gate[where req = "request_at GET [''epic'', ''health''] [] [] 2000000"
            and w = "w0\<lparr>hits := [(''10.0.0.7'', \<lparr>count = 100, window_start = 1900000\<rparr>)]\<rparr>"
            and d = "demo up_ok" and p = "[]" and rest = "[]"
            and store = "[(''10.0.0.7'', \<lparr>count = 101, window_start = 1900000\<rparr>),
                          (''10.0.0.7'', \<lparr>count = 100, window_start = 1900000\<rparr>)]"
            and token = "[]" and err = "[]"]
          protected_routes_gate[where req = "(request_at POST [''epic'', ''sync''] [(''x-request-id'', ''r-9'')] [] 2000000)
             \<lparr>req_raw := Unparsable bad_json\<rparr>"
            and w = w0 and d = "demo up_ok" and p = "[]" and rest = "[]" and e = bad_json
            and store = "[(''10.0.0.7'', \<lparr>count = 1, window_start = 2000000\<rparr>)]"
            and token = "[]" and err = "[]"]
          t full c1_token_wellformed c1_token_verify[of up_ok 4601]
    by (simp add: request_at_def w0_def admit_first protected_prefixes_def header_def bearer_def
          wellformed_def verified_def header_token_def parses_def or_else_def opt_str_def)
qed

text \<open>
  The claim as it stands names every request to a protected route. Three layers answer
  before the Auth Gate is reached: a request without an Authorization header gets 204
  when it is a CORS preflight, 429 when the caller's window is used up, and 500 when
  its body does not parse.
\<close>

theorem answered_before_the_gate:
  "gateway (demo up_ok) (request_at OPTIONS [''fhir'', ''Patient''] [] [] 2000000) w0 =
     (Some \<lparr>status = 204, res_body = NoBody\<rparr>, w0) \<and>
   fst (gateway (demo up_ok) (request_at GET [''fhir'', ''Patient''] [] [] 2000000)
          (w0\<lparr>hits := [(''10.0.0.7'', \<lparr>count = 100, window_start = 1900000\<rparr>)]\<rparr>)) =
     Some \<lparr>status = 429, res_body = Text limit_message\<rparr> \<and>
   fst (gateway (demo up_ok)
          ((request_at POST [''fhir'', ''Patient''] [] [] 2000000)\<lparr>req_raw := Unparsable bad_json\<rparr>) w0) =
     Some \<lparr>status = 500,
           res_body = Json (JObj [(''error'', JStr ''Internal server error''),
                                  (''requestId'', JStr (decimal 2000000))])\<rparr>"
proof -
  have "admit 2000000 ''10.0.0.7'' [(''10.0.0.7'', \<lparr>count = 100, window_start = 1900000\<rparr>)] =
          (False, [(''10.0.0.7'', \<lparr>count = 101, window_start = 1900000\<rparr>),
                   (''10.0.0.7'', \<lparr>count = 100, window_start = 1900000\<rparr>)])"
    by (simp add: admit_def current_window_def windowMs_def max_requests_def)
  then show ?thesis
    using gateway_options[of "request_at OPTIONS [''fhir'', ''Patient''] [] [] 2000000" "demo up_ok" w0]
          gateway_throttled[of "request_at GET [''fhir'', ''Patient''] [] [] 2000000"
            "w0\<lparr>hits := [(''10.0.0.7'', \<lparr>count = 100, window_start = 1900000\<rparr>)]\<rparr>" _ "demo up_ok"]
          gateway_unparsable[of "(request_at POST [''fhir'', ''Patient''] [] [] 2000000)\<lparr>req_raw := Unparsable bad_json\<rparr>"
            w0 "[(''10.0.0.7'', \<lparr>count = 1, window_start = 2000000\<rparr>)]" bad_json "demo up_ok"]
    by (simp add: request_at_def w0_def admit_first header_def or_else_def opt_str_def)
qed

subsection \<open>C5: the rate limiter\<close>



















subsection \<open>What a proxy does, and a verified request on a protected prefix\<close>

lemma proxy_fst:
  "fst (createProxyMiddleware opts a (onError l c) up q v) =
     (case up (px_target opts) (q\<lparr>req_url := req_originalUrl q\<rparr>) of
        Replied r \<Rightarrow> Done r
      | Failed err \<Rightarrow> respond 502 (Json (JObj [(''error'', JStr c), (''message'', JStr err)]))
      | Silent \<Rightarrow> Pending)"
  by (simp add: createProxyMiddleware_def onError_def Let_def split: upstream_result.splits)

lemma proxy_at_fst:
  "fst (proxy_at d p q v) =
     (case d_upstream d (px_target (options_at (d_env d) p)) (q\<lparr>req_url := req_originalUrl q\<rparr>) of
        Replied r \<Rightarrow> Done r
      | Failed err \<Rightarrow>
          respond 502 (Json (JObj [(''error'', JStr (unavailable_text p)), (''message'', JStr err)]))
      | Silent \<Rightarrow> Pending)"
  by (simp add: proxy_at_def options_at_def unavailable_text_def proxy_fst
        fhir_proxy_def hl7_proxy_def epic_proxy_def audit_proxy_def
      cong: upstream_result.case_cong)

lemma onProxyReq_calls: "upstream_calls (onProxyReq m x q v) = upstream_calls v"
  by (simp add: onProxyReq_def logger_def)

lemma onProxyReq_audit:
  "m \<noteq> ''API Access'' \<Longrightarrow> audit_records (onProxyReq m x q v) = audit_records v"
  by (simp add: onProxyReq_def logger_def audit_records_def)

lemma proxy_calls:
  assumes "\<And>q v. upstream_calls (a q v) = upstream_calls v"
  shows "upstream_calls (snd (createProxyMiddleware opts a (onError l c) up q v)) =
     upstream_calls v @ [\<lparr>uc_target = px_target opts, uc_method = req_method q,
                          uc_url = req_originalUrl q,
                          uc_authorization = outbound_authorization opts q\<rparr>]"
  by (simp add: createProxyMiddleware_def onError_def logger_def Let_def assms
           split: upstream_result.splits)

lemma proxy_at_calls:
  "upstream_calls (snd (proxy_at d p q v)) =
     upstream_calls v @ [\<lparr>uc_target = px_target (options_at (d_env d) p),
                          uc_method = req_method q, uc_url = req_originalUrl q,
                          uc_authorization = outbound_authorization (options_at (d_env d) p) q\<rparr>]"
  by (simp add: proxy_at_def options_at_def proxy_calls onProxyReq_calls
        fhir_proxy_def hl7_proxy_def epic_proxy_def audit_proxy_def)

lemma proxy_audit:
  assumes "\<And>q v. audit_records (a q v) = audit_records v" "l \<noteq> ''API Access''"
  shows "audit_records (snd (createProxyMiddleware opts a (onError l c) up q v)) =
     audit_records v"
proof -
  have "audit_records (u\<lparr>upstream_calls := x\<rparr>) = audit_records u" for u x
    by (simp add: audit_records_def)
  then show ?thesis
    using assms
    by (simp add: createProxyMiddleware_def onError_def logger_def Let_def
          audit_records_def split: upstream_result.splits)
qed

lemma proxy_at_audit: "audit_records (snd (proxy_at d p q v)) = audit_records v"
  by (simp add: proxy_at_def proxy_audit onProxyReq_audit
        fhir_proxy_def hl7_proxy_def epic_proxy_def audit_proxy_def)

lemma outbound_copied:
  "header_token (header req ''authorization'') = Some token \<Longrightarrow> token \<noteq> [] \<Longrightarrow>
   header q ''authorization'' = header req ''authorization'' \<Longrightarrow>
   outbound_authorization opts q = map_option Copied (header req ''authorization'')"
  by (auto simp: outbound_authorization_def header_token_def split: option.splits)

lemma proxied_forwarded:
  "req_originalUrl req = p # rest \<Longrightarrow>
   (forwarded req rest u)\<lparr>req_url := req_originalUrl (forwarded req rest u)\<rparr> = proxied req u"
  by (simp add: forwarded_def proxied_def routed_def fresh_def)

lemma gateway_verified:
  assumes "req_originalUrl req = p # rest" "p \<in> set protected_prefixes"
      "req_method req \<noteq> OPTIONS" "admit (req_now req) (req_ip req) (hits w) = (True, store)"
      "parses req"
      "header_token (header req ''authorization'') = Some token" "token \<noteq> []"
      "jwt_verify (d_jwt d) token (jwt_secret (d_env d)) (req_now req div 1000) = Inr u"
  shows "fst (gateway d req w) =
           (case fst (proxy_at d p (forwarded req rest u)
                  (logger Info ''API Access'' (auditData (forwarded req rest u)) (w\<lparr>hits := store\<rparr>))) of
              Done r \<Rightarrow> Some r | other \<Rightarrow> None)"
    and "snd (gateway d req w) =
           snd (proxy_at d p (forwarded req rest u)
                  (logger Info ''API Access'' (auditData (forwarded req rest u)) (w\<lparr>hits := store\<rparr>)))"
proof -
  let ?q = "(routed req)\<lparr>req_url := rest\<rparr>"
  let ?v = "logger Info ''API Access'' (auditData (forwarded req rest u)) (w\<lparr>hits := store\<rparr>)"
  have "header_token (header ?q ''authorization'') = Some token"
    "jwt_verify (d_jwt d) token (jwt_secret (d_env d)) (req_now ?q div 1000) = Inr u"
    using assms(6,8) by (simp_all add: header_def routed_def fresh_def)
  from auth_ok[OF this(1) assms(7) this(2)]
  have a: "authenticateToken d ?q (w\<lparr>hits := store\<rparr>) = (Next (forwarded req rest u), w\<lparr>hits := store\<rparr>)"
    by (simp add: forwarded_def)
  have "fst (gateway d req w) =
           (case fst (proxy_at d p (forwarded req rest u) ?v) of Done r \<Rightarrow> Some r | other \<Rightarrow> None) \<and>
        snd (gateway d req w) = snd (proxy_at d p (forwarded req rest u) ?v)"
    using proxy_at_ends[of d p "forwarded req rest u" ?v]
  proof (elim disjE exE)
    fix r w''
    assume p: "proxy_at d p (forwarded req rest u) ?v = (Done r, w'')"
    from gateway_protected_passed(1)[OF assms(1-5) a p] p show ?thesis by simp
  next
    fix w''
    assume p: "proxy_at d p (forwarded req rest u) ?v = (Pending, w'')"
    from gateway_protected_passed(2)[OF assms(1-5) a p] p show ?thesis by simp
  qed
  then show "fst (gateway d req w) =
           (case fst (proxy_at d p (forwarded req rest u) ?v) of Done r \<Rightarrow> Some r | other \<Rightarrow> None)"
    and "snd (gateway d req w) = snd (proxy_at d p (forwarded req rest u) ?v)"
    by simp_all
qed

lemma bearer_c1: "header_token (Some (''Bearer '' @ c1_token)) = Some c1_token"
  using header_token_scheme[of "''Bearer''" c1_token] c1_token_wellformed
  by (simp add: wellformed_def)

lemma c1_nonempty: "c1_token \<noteq> []"
  using c1_token_wellformed by (simp add: wellformed_def)

lemma gateway_upstream:
  assumes "req_originalUrl req = p # rest" "p \<in> set protected_prefixes"
      "req_method req \<noteq> OPTIONS" "admit (req_now req) (req_ip req) (hits w) = (True, store)"
      "parses req"
      "header_token (header req ''authorization'') = Some token" "token \<noteq> []"
      "jwt_verify (d_jwt d) token (jwt_secret (d_env d)) (req_now req div 1000) = Inr u"
  shows "fst (gateway d req w) =
     (case d_upstream d (px_target (options_at (d_env d) p)) (proxied req u) of
        Replied r \<Rightarrow> Some r
      | Failed err \<Rightarrow>
          Some \<lparr>status = 502,
                res_body = Json (JObj [(''error'', JStr (unavailable_text p)), (''message'', JStr err)])\<rparr>
      | Silent \<Rightarrow> None)"
  by (simp add: gateway_verified(1)[OF assms] proxy_at_fst proxied_forwarded[OF assms(1)] respond_def
        split: upstream_result.splits)

lemma gateway_upstream_calls:
  assumes "req_originalUrl req = p # rest" "p \<in> set protected_prefixes"
      "req_method req \<noteq> OPTIONS" "admit (req_now req) (req_ip req) (hits w) = (True, store)"
      "parses req"
      "header_token (header req ''authorization'') = Some token" "token \<noteq> []"
      "jwt_verify (d_jwt d) token (jwt_secret (d_env d)) (req_now req div 1000) = Inr u"
  shows "upstream_calls (snd (gateway d req w)) =
     upstream_calls w @ [\<lparr>uc_target = px_target (options_at (d_env d) p),
                          uc_method = req_method req, uc_url = p # rest,
                          uc_authorization = map_option Copied (header req ''authorization'')\<rparr>]"
proof -
  have "header (forwarded req rest u) ''authorization'' = header req ''authorization''"
    by (simp add: header_def forwarded_def routed_def fresh_def)
  from outbound_copied[OF assms(6,7) this] assms(1) show ?thesis
    by (simp add: gateway_verified(2)[OF assms] proxy_at_calls logger_def)
       (simp add: forwarded_def routed_def fresh_def)
qed

lemma gateway_audit_record:
  assumes "req_originalUrl req = p # rest" "p \<in> set protected_prefixes"
      "req_method req \<noteq> OPTIONS" "admit (req_now req) (req_ip req) (hits w) = (True, store)"
      "parses req"
      "header_token (header req ''authorization'') = Some token" "token \<noteq> []"
      "jwt_verify (d_jwt d) token (jwt_secret (d_env d)) (req_now req div 1000) = Inr u"
  shows "audit_records (snd (gateway d req w)) =
     audit_records w @
       [\<lparr>log_level = Info, log_message = ''API Access'',
         log_meta = auditData (forwarded req rest u)\<rparr>]"
  by (simp add: gateway_verified(2)[OF assms] proxy_at_audit) (simp add: logger_def audit_records_def)

subsection \<open>C7: upstream failures\<close>

lemma proxy_error_log:
  "up (px_target opts) (q\<lparr>req_url := req_originalUrl q\<rparr>) = Failed err \<Longrightarrow>
   last (logs (snd (createProxyMiddleware opts a (onError l c) up q v))) =
     \<lparr>log_level = Error, log_message = l,
      log_meta = JObj [(''error'', JStr err), (''url'', JStr (url_text (req_originalUrl q)))]\<rparr>"
  by (simp add: createProxyMiddleware_def onError_def logger_def Let_def)

lemma proxy_at_error_log:
  "d_upstream d (px_target (options_at (d_env d) p)) (q\<lparr>req_url := req_originalUrl q\<rparr>) = Failed err \<Longrightarrow>
   last (logs (snd (proxy_at d p q v))) =
     \<lparr>log_level = Error, log_message = proxy_error_text p,
      log_meta = JObj [(''error'', JStr err), (''url'', JStr (url_text (req_originalUrl q)))]\<rparr>"
  by (simp add: proxy_at_def options_at_def proxy_error_text_def proxy_error_log
        fhir_proxy_def hl7_proxy_def epic_proxy_def audit_proxy_def split: if_splits)

lemma gateway_upstream_failed_log:
  assumes "req_originalUrl req = p # rest" "p \<in> set protected_prefixes"
      "req_method req \<noteq> OPTIONS" "admit (req_now req) (req_ip req) (hits w) = (True, store)"
      "parses req"
      "header_token (header req ''authorization'') = Some token" "token \<noteq> []"
      "jwt_verify (d_jwt d) token (jwt_secret (d_env d)) (req_now req div 1000) = Inr u"
      "d_upstream d (px_target (options_at (d_env d) p)) (proxied req u) = Failed err"
  shows "last (logs (snd (gateway d req w))) =
     \<lparr>log_level = Error, log_message = proxy_error_text p,
      log_meta = JObj [(''error'', JStr err), (''url'', JStr (url_text (p # rest)))]\<rparr>"
proof -
  have "req_originalUrl (forwarded req rest u) = p # rest"
    using assms(1) by (simp add: forwarded_def routed_def fresh_def)
  moreover have "d_upstream d (px_target (options_at (d_env d) p))
      ((forwarded req rest u)\<lparr>req_url := req_originalUrl (forwarded req rest u)\<rparr>) = Failed err"
    using assms(9) by (simp only: proxied_forwarded[OF assms(1)])
  ultimately show ?thesis
    using proxy_at_error_log[of d p "forwarded req rest u" err]
    by (simp add: gateway_verified(2)[OF assms(1-8)])
qed

text \<open>
  Claim C7, as the code has it. When the upstream connection of a proxied request
  fails, the gateway answers 502 with a body \<open>{error, message}\<close>: \<open>error\<close> is the fixed
  text of that proxy, and \<open>message\<close> is the upstream error's own message, word for word,
  which is also what the error entry written to the log carries, next to the path of the
  request. Nothing is removed from the message on its way to the client. An upstream
  that stays silent leaves the request unanswered: no proxy sets a timeout.
\<close>

theorem upstream_failure_502:
  "req_originalUrl req = p # rest \<and> p \<in> set protected_prefixes \<and> req_method req \<noteq> OPTIONS \<and>
   admit (req_now req) (req_ip req) (hits w) = (True, store) \<and> parses req \<and>
   header_token (header req ''authorization'') = Some token \<and> token \<noteq> [] \<and>
   jwt_verify (d_jwt d) token (jwt_secret (d_env d)) (req_now req div 1000) = Inr u
   \<longrightarrow> (d_upstream d (px_target (options_at (d_env d) p)) (proxied req u) = Failed err \<longrightarrow>
         fst (gateway d req w) =
           Some \<lparr>status = 502,
                 res_body = Json (JObj [(''error'', JStr (unavailable_text p)), (''message'', JStr err)])\<rparr> \<and>
         last (logs (snd (gateway d req w))) =
           \<lparr>log_level = Error, log_message = proxy_error_text p,
            log_meta = JObj [(''error'', JStr err), (''url'', JStr (url_text (p # rest)))]\<rparr>) \<and>
       (d_upstream d (px_target (options_at (d_env d) p)) (proxied req u) = Silent \<longrightarrow>
         fst (gateway d req w) = None)"
proof (intro impI conjI)
  assume a: "req_originalUrl req = p # rest \<and> p \<in> set protected_prefixes \<and> req_method req \<noteq> OPTIONS \<and>
   admit (req_now req) (req_ip req) (hits w) = (True, store) \<and> parses req \<and>
   header_token (header req ''authorization'') = Some token \<and> token \<noteq> [] \<and>
   jwt_verify (d_jwt d) token (jwt_secret (d_env d)) (req_now req div 1000) = Inr u"
  {
    assume f: "d_upstream d (px_target (options_at (d_env d) p)) (proxied req u) = Failed err"
    with a show "fst (gateway d req w) =
           Some \<lparr>status = 502,
                 res_body = Json (JObj [(''error'', JStr (unavailable_text p)), (''message'', JStr err)])\<rparr>"
      using gateway_upstream[of req p rest w store token d u] by simp
    from a f show "last (logs (snd (gateway d req w))) =
           \<lparr>log_level = Error, log_message = proxy_error_text p,
            log_meta = JObj [(''error'', JStr err), (''url'', JStr (url_text (p # rest)))]\<rparr>"
      using gateway_upstream_failed_log[of req p rest w store token d u err] by blast
  }
  {
    assume "d_upstream d (px_target (options_at (d_env d) p)) (proxied req u) = Silent"
    with a show "fst (gateway d req w) = None"
      using gateway_upstream[of req p rest w store token d u] by simp
  }
qed

theorem upstream_failure_502_witness:
  "fst (gateway (demo (up_refuses ''socket hang up''))
          (request_at GET [''epic'', ''health''] (bearer c1_token) [] 2000000) w0) =
     Some \<lparr>status = 502,
           res_body = Json (JObj [(''error'', JStr ''EPIC connector service temporarily unavailable''),
                                  (''message'', JStr ''socket hang up'')])\<rparr> \<and>
   last (logs (snd (gateway (demo (up_refuses ''socket hang up''))
          (request_at GET [''epic'', ''health''] (bearer c1_token) [] 2000000) w0))) =
      \<lparr>log_level = Error, log_message = ''EPIC Proxy Error'',
       log_meta = JObj [(''error'', JStr ''socket hang up''), (''url'', JStr ''/epic/health'')]\<rparr> \<and>
   fst (gateway (demo up_silent)
          (request_at GET [''epic'', ''health''] (bearer c1_token) [] 2000000) w0) = None"
  using upstream_failure_502[where req = "request_at GET [''epic'', ''health''] (bearer c1_token) [] 2000000"
          and p = "''epic''" and rest = "[''health'']" and w = w0 and token = c1_token
          and d = "demo (up_refuses ''socket hang up'')" and u = c1_user
          and store = "[(''10.0.0.7'', \<lparr>count = 1, window_start = 2000000\<rparr>)]"
          and err = "''socket hang up''"]
        upstream_failure_502[where req = "request_at GET [''epic'', ''health''] (bearer c1_token) [] 2000000"
          and p = "''epic''" and rest = "[''health'']" and w = w0 and token = c1_token
          and d = "demo up_silent" and u = c1_user
          and store = "[(''10.0.0.7'', \<lparr>count = 1, window_start = 2000000\<rparr>)]"
          and err = "[]"]
        bearer_c1 c1_nonempty c1_token_verify[of "up_refuses ''socket hang up''" 2000]
        c1_token_verify[of up_silent 2000]
  by (simp add: request_at_def w0_def admit_first protected_prefixes_def header_def bearer_def
        unavailable_text_def proxy_error_text_def url_text_def parses_def)
     (simp add: demo_def up_refuses_def up_silent_def)

text \<open>
  The claim as written (the message does not expose internal hosts or ports) fails: with
  the FHIR server refusing the connection, the client reads the address and the port in
  the response body.
\<close>

theorem upstream_error_message_relayed:
  "map_option res_body
     (fst (gateway (demo (up_refuses ''connect ECONNREFUSED 172.18.0.5:8084''))
             (request_at GET [''fhir'', ''Patient''] (bearer c1_token) [] 2000000) w0)) =
     Some (Json (JObj [(''error'', JStr ''FHIR service temporarily unavailable''),
                       (''message'', JStr ''connect ECONNREFUSED 172.18.0.5:8084'')]))"
proof -
  let ?d = "demo (up_refuses ''connect ECONNREFUSED 172.18.0.5:8084'')"
  let ?req = "request_at GET [''fhir'', ''Patient''] (bearer c1_token) [] 2000000"
  have "fst (gateway ?d ?req w0) =
     (case d_upstream ?d (px_target (options_at (d_env ?d) ''fhir'')) (proxied ?req c1_user) of
        Replied r \<Rightarrow> Some r
      | Failed err \<Rightarrow>
          Some \<lparr>status = 502,
                res_body = Json (JObj [(''error'', JStr (unavailable_text ''fhir'')), (''message'', JStr err)])\<rparr>
      | Silent \<Rightarrow> None)"
  proof (rule gateway_upstream[where token = c1_token and rest = "[''Patient'']"])
    show "header_token (header ?req ''authorization'') = Some c1_token"
      using bearer_c1 by (simp add: header_def request_at_def bearer_def)
    show "jwt_verify (d_jwt ?d) c1_token (jwt_secret (d_env ?d)) (req_now ?req div 1000) = Inr c1_user"
      by (simp add: c1_token_verify request_at_def)
  qed (simp_all add: request_at_def w0_def admit_first protected_prefixes_def c1_nonempty parses_def)
  then show ?thesis by (simp add: unavailable_text_def demo_def up_refuses_def)
qed

subsection \<open>C6: the credential injected for the FHIR upstream\<close>

lemma c1_token_verify_env:
  "d_jwt d = ref_jwt \<Longrightarrow> jwt_secret (d_env d) = ''fallback-secret'' \<Longrightarrow>
   jwt_verify (d_jwt d) c1_token (jwt_secret (d_env d)) now =
     (if 4600 \<le> now then Inl ''jwt expired'' else Inr c1_user)"
  using ref_verify_sign[OF c1_plain, of "''fallback-secret''" 3600 1000 now]
  by (simp add: c1_token_def c1_user_def ref_jwt_def)

text \<open>
  Claim C6 says that the \<^verbatim>\<open>Authorization\<close> header of a request proxied to the FHIR
  upstream carries a basic-auth credential taken from the startup configuration. The
  code sets the proxy's \<^verbatim>\<open>auth\<close> option to the literal \<^verbatim>\<open>admin:admin123\<close> (line 119,
  commented \<^verbatim>\<open>Add basic auth for FHIR server\<close>) whatever the configuration says, and
  that option never reaches the wire: every request that gets as far as the proxy
  carries the caller's own \<^verbatim>\<open>Authorization\<close> header (the Auth Gate demands it), the
  proxy copies it, and a request that already has the header is not given another. For
  \<^verbatim>\<open>GET /fhir/Patient\<close> with the bearer token of client \<open>c1\<close>, under the default
  configuration and under one that names another server and another credential, the
  FHIR upstream is sent the caller's bearer token. Only a request without the header
  would be sent the literal, and the Auth Gate answers that one 401 without calling
  the upstream.
\<close>

theorem fhir_credential_never_sent:
  "upstream_calls (snd (gateway (demo up_ok)
       (request_at GET [''fhir'', ''Patient''] (bearer c1_token) [] 2000000) w0)) =
     [\<lparr>uc_target = ''http://fhir-server:8084'', uc_method = GET,
       uc_url = [''fhir'', ''Patient''],
       uc_authorization = Some (Copied (''Bearer '' @ c1_token))\<rparr>] \<and>
   upstream_calls (snd (gateway
       \<lparr>d_env = [(''FHIR_SERVER_URL'', ''http://fhir.internal:9000''),
                 (''FHIR_BASIC_AUTH'', ''svc:s3cret'')],
        d_jwt = ref_jwt, d_upstream = up_ok\<rparr>
       (request_at GET [''fhir'', ''Patient''] (bearer c1_token) [] 2000000) w0)) =
     [\<lparr>uc_target = ''http://fhir.internal:9000'', uc_method = GET,
       uc_url = [''fhir'', ''Patient''],
       uc_authorization = Some (Copied (''Bearer '' @ c1_token))\<rparr>] \<and>
   px_auth (fhir_options []) = Some ''admin:admin123'' \<and>
   px_auth (fhir_options [(''FHIR_SERVER_URL'', ''http://fhir.internal:9000''),
                          (''FHIR_BASIC_AUTH'', ''svc:s3cret'')]) = Some ''admin:admin123'' \<and>
   outbound_authorization
       (fhir_options [(''FHIR_SERVER_URL'', ''http://fhir.internal:9000''),
                      (''FHIR_BASIC_AUTH'', ''svc:s3cret'')])
       (request_at GET [''fhir'', ''Patient''] [] [] 2000000) = Some (Basic ''admin:admin123'') \<and>
   gateway (demo up_ok) (request_at GET [''fhir'', ''Patient''] [] [] 2000000) w0 =
     (Some \<lparr>status = 401, res_body = Json (JObj [(''error'', JStr ''Access token required'')])\<rparr>,
      w0\<lparr>hits := [(''10.0.0.7'', \<lparr>count = 1, window_start = 2000000\<rparr>)]\<rparr>)"
proof -
  let ?req = "request_at GET [''fhir'', ''Patient''] (bearer c1_token) [] 2000000"
  let ?bare = "request_at GET [''fhir'', ''Patient''] [] [] 2000000"
  let ?e = "[(''FHIR_SERVER_URL'', ''http://fhir.internal:9000''), (''FHIR_BASIC_AUTH'', ''svc:s3cret'')]"
  let ?d = "\<lparr>d_env = ?e, d_jwt = ref_jwt, d_upstream = up_ok\<rparr>"
  let ?st = "[(''10.0.0.7'', \<lparr>count = 1, window_start = 2000000\<rparr>)]"
  have p: "''fhir'' \<in> set protected_prefixes" by (simp add: protected_prefixes_def)
  have o: "req_originalUrl ?req = ''fhir'' # [''Patient'']" "req_method ?req \<noteq> OPTIONS" "parses ?req"
    by (simp_all add: request_at_def parses_def)
  have a: "admit (req_now ?req) (req_ip ?req) (hits w0) = (True, ?st)"
    by (simp add: request_at_def w0_def admit_first)
  have h: "header_token (header ?req ''authorization'') = Some c1_token"
    using bearer_c1 by (simp add: header_def request_at_def bearer_def)
  have v: "jwt_verify (d_jwt (demo up_ok)) c1_token (jwt_secret (d_env (demo up_ok)))
             (req_now ?req div 1000) = Inr c1_user"
    by (simp add: c1_token_verify request_at_def)
  have v': "jwt_verify (d_jwt ?d) c1_token (jwt_secret (d_env ?d)) (req_now ?req div 1000) = Inr c1_user"
    using c1_token_verify_env[of ?d 2000]
    by (simp add: jwt_secret_def env_or_def request_at_def)
  have 1: "upstream_calls (snd (gateway (demo up_ok) ?req w0)) =
     upstream_calls w0 @
       [\<lparr>uc_target = px_target (options_at (d_env (demo up_ok)) ''fhir''),
         uc_method = req_method ?req, uc_url = ''fhir'' # [''Patient''],
         uc_authorization = map_option Copied (header ?req ''authorization'')\<rparr>]"
    by (rule gateway_upstream_calls[OF o(1) p o(2) a o(3) h c1_nonempty v])
  have 2: "upstream_calls (snd (gateway ?d ?req w0)) =
     upstream_calls w0 @
       [\<lparr>uc_target = px_target (options_at (d_env ?d) ''fhir''),
         uc_method = req_method ?req, uc_url = ''fhir'' # [''Patient''],
         uc_authorization = map_option Copied (header ?req ''authorization'')\<rparr>]"
    by (rule gateway_upstream_calls[OF o(1) p o(2) a o(3) h c1_nonempty v'])
  have 3: "gateway (demo up_ok) ?bare w0 =
     (Some \<lparr>status = 401, res_body = Json (JObj [(''error'', JStr ''Access token required'')])\<rparr>,
      w0\<lparr>hits := ?st\<rparr>)"
  proof (rule gateway_protected_rejected[where p = "''fhir''" and rest = "[''Patient'']" and store = ?st])
    show "authenticateToken (demo up_ok) ((routed ?bare)\<lparr>req_url := [''Patient'']\<rparr>) (w0\<lparr>hits := ?st\<rparr>) =
      (Done \<lparr>status = 401, res_body = Json (JObj [(''error'', JStr ''Access token required'')])\<rparr>,
       w0\<lparr>hits := ?st\<rparr>)"
      by (simp add: auth_missing header_def routed_def fresh_def request_at_def respond_def)
  qed (simp_all add: request_at_def parses_def w0_def admit_first p)
  from 1 2 3 show ?thesis
    by (simp add: options_at_def fhir_options_def fhirServerUrl_def env_or_def demo_def w0_def
          header_def outbound_authorization_def)
       (simp add: request_at_def bearer_def)
qed

subsection \<open>C1: the legacy HL7 message endpoint\<close>

text \<open>
  Claim C1 says that the gateway itself answers \<^verbatim>\<open>POST /hl7/message\<close> with 202 (or 400
  on a missing member). The handler of lines 164-182 would: run on a request with both
  members it answers 202 with the message id. But \<^verbatim>\<open>app.use('/hl7', ...)\<close> is registered
  first (line 139) and its proxy ends every request under \<^verbatim>\<open>/hl7\<close>, this one included:
  the request is forwarded to the HL7 processor as \<^verbatim>\<open>/hl7/message\<close>, and the answer is
  the processor's, or 502 when the processor cannot be reached, or none while the
  processor stays silent, with or without the members in the body.
\<close>

theorem legacy_hl7_message_is_proxied:
  "fst (gateway (demo (up_refuses ''connect ECONNREFUSED 172.18.0.6:8001''))
          (request_at POST [''hl7'', ''message''] (bearer c1_token)
             [(''messageType'', JStr ''ADT''), (''content'', JStr ''MSH|ADT''),
              (''messageId'', JStr ''m-1'')] 2000000) w0) =
     Some \<lparr>status = 502,
           res_body = Json (JObj [(''error'', JStr ''HL7 processor service temporarily unavailable''),
                                  (''message'', JStr ''connect ECONNREFUSED 172.18.0.6:8001'')])\<rparr> \<and>
   fst (gateway (demo up_ok)
          (request_at POST [''hl7'', ''message''] (bearer c1_token)
             [(''messageType'', JStr ''ADT''), (''content'', JStr ''MSH|ADT''),
              (''messageId'', JStr ''m-1'')] 2000000) w0) =
     Some \<lparr>status = 200, res_body = Text ''ok''\<rparr> \<and>
   fst (gateway (demo up_silent)
          (request_at POST [''hl7'', ''message''] (bearer c1_token)
             [(''messageType'', JStr ''ADT''), (''content'', JStr ''MSH|ADT''),
              (''messageId'', JStr ''m-1'')] 2000000) w0) = None \<and>
   upstream_calls (snd (gateway (demo up_ok)
          (request_at POST [''hl7'', ''message''] (bearer c1_token)
             [(''messageType'', JStr ''ADT''), (''content'', JStr ''MSH|ADT''),
              (''messageId'', JStr ''m-1'')] 2000000) w0)) =
     [\<lparr>uc_target = ''http://hl7-processor:8001'', uc_method = POST,
       uc_url = [''hl7'', ''message''],
       uc_authorization = Some (Copied (''Bearer '' @ c1_token))\<rparr>] \<and>
   fst (gateway (demo up_ok)
          (request_at POST [''hl7'', ''message''] (bearer c1_token) [] 2000000) w0) =
     Some \<lparr>status = 200, res_body = Text ''ok''\<rparr> \<and>
   fst (run_chain [body_notEmpty ''messageType'' ''Message type is required'',
                   body_notEmpty ''content'' ''HL7 content is required'', hl7_message]
          (forwarded (request_at POST [''hl7'', ''message''] (bearer c1_token)
             [(''messageType'', JStr ''ADT''), (''content'', JStr ''MSH|ADT''),
              (''messageId'', JStr ''m-1'')] 2000000)
             [''hl7'', ''message''] c1_user) w0) =
     respond 202 (Json (JObj [(''message'', JStr ''HL7 message queued for processing''),
                              (''messageId'', JStr ''m-1'')]))"
proof -
  let ?b = "[(''messageType'', JStr ''ADT''), (''content'', JStr ''MSH|ADT''), (''messageId'', JStr ''m-1'')]"
  let ?req = "request_at POST [''hl7'', ''message''] (bearer c1_token) ?b 2000000"
  let ?bad = "request_at POST [''hl7'', ''message''] (bearer c1_token) [] 2000000"
  let ?down = "demo (up_refuses ''connect ECONNREFUSED 172.18.0.6:8001'')"
  have p: "''hl7'' \<in> set protected_prefixes" by (simp add: protected_prefixes_def)
  have o: "req_originalUrl (request_at POST [''hl7'', ''message''] (bearer c1_token) b 2000000) =
            ''hl7'' # [''message'']"
      "req_method (request_at POST [''hl7'', ''message''] (bearer c1_token) b 2000000) \<noteq> OPTIONS"
      "parses (request_at POST [''hl7'', ''message''] (bearer c1_token) b 2000000)" for b
    by (simp_all add: request_at_def parses_def)
  have h: "header_token (header (request_at POST [''hl7'', ''message''] (bearer c1_token) b 2000000)
             ''authorization'') = Some c1_token" for b
    using bearer_c1 by (simp add: header_def request_at_def bearer_def)
  have v: "jwt_verify (d_jwt (demo up)) c1_token (jwt_secret (d_env (demo up)))
             (req_now (request_at POST [''hl7'', ''message''] (bearer c1_token) b 2000000) div 1000) =
           Inr c1_user" for up b
    by (simp add: c1_token_verify request_at_def)
  have a: "admit (req_now (request_at POST [''hl7'', ''message''] (bearer c1_token) b 2000000))
             (req_ip (request_at POST [''hl7'', ''message''] (bearer c1_token) b 2000000)) (hits w0) =
           (True, [(''10.0.0.7'', \<lparr>count = 1, window_start = 2000000\<rparr>)])" for b
    by (simp add: request_at_def w0_def admit_first)
  note g = gateway_upstream[OF o(1) p o(2) a o(3) h c1_nonempty v]
  have 1: "fst (gateway ?down ?req w0) =
     Some \<lparr>status = 502,
           res_body = Json (JObj [(''error'', JStr (unavailable_text ''hl7'')),
                                  (''message'', JStr ''connect ECONNREFUSED 172.18.0.6:8001'')])\<rparr>"
    by (simp add: g) (simp add: demo_def up_refuses_def)
  have 2: "fst (gateway (demo up_ok) ?req w0) = Some \<lparr>status = 200, res_body = Text ''ok''\<rparr>"
    by (simp add: g) (simp add: demo_def up_ok_def)
  have 3: "fst (gateway (demo up_silent) ?req w0) = None"
    by (simp add: g) (simp add: demo_def up_silent_def)
  have 4: "upstream_calls (snd (gateway (demo up_ok) ?req w0)) =
      upstream_calls w0 @
      [\<lparr>uc_target = px_target (options_at (d_env (demo up_ok)) ''hl7''),
        uc_method = req_method ?req, uc_url = ''hl7'' # [''message''],
        uc_authorization = map_option Copied (header ?req ''authorization'')\<rparr>]"
    by (rule gateway_upstream_calls[OF o(1) p o(2) a o(3) h c1_nonempty v])
  have 5: "fst (gateway (demo up_ok) ?bad w0) = Some \<lparr>status = 200, res_body = Text ''ok''\<rparr>"
    by (simp add: g) (simp add: demo_def up_ok_def)
  have 6: "fst (run_chain [body_notEmpty ''messageType'' ''Message type is required'',
                   body_notEmpty ''content'' ''HL7 content is required'', hl7_message]
          (forwarded ?req [''hl7'', ''message''] c1_user) w0) =
     respond 202 (Json (JObj [(''message'', JStr ''HL7 message queued for processing''),
                              (''messageId'', JStr ''m-1'')]))"
    by (simp add: body_notEmpty_def validate_def violations_def field_def forwarded_def routed_def
          fresh_def parsed_body_def request_at_def hl7_message_def or_else_def respond_def)
  from 1 2 3 4 5 6 show ?thesis
    by (simp add: unavailable_text_def options_at_def hl7_options_def demo_def env_or_def w0_def
          header_def)
       (simp add: request_at_def bearer_def)
qed

subsection \<open>The token endpoint\<close>

lemma oauth_token_eq:
  "oauth_token d q v =
     (if req_errors q \<noteq> [] then
        (Done \<lparr>status = 400,
               res_body = Json (JObj [(''errors'', JArr (map verror_json (req_errors q)))])\<rparr>, v)
      else
        (Done \<lparr>status = 200,
               res_body = Json (JObj [(''access_token'', JStr (sign_token d q)),
                                      (''token_type'', JStr ''Bearer''),
                                      (''expires_in'', JNum 3600),
                                      (''scope'', JStr token_scope)])\<rparr>,
         logger Info ''OAuth token issued''
           (JObj [(''client_id'', field (req_body q) ''client_id'')]) v))"
  by (simp add: oauth_token_def validation_failed_def respond_def)

lemma oauth_token_done: "\<exists>r w'. oauth_token d q v = (Done r, w')"
  by (simp add: oauth_token_eq)

lemma oauth_chain:
  "run_chain [body_equals ''grant_type'' ''client_credentials'' ''Invalid value'',
              body_notEmpty ''client_id'' ''Invalid value'',
              body_notEmpty ''client_secret'' ''Invalid value'',
              oauth_token d] q v =
   oauth_token d
     (q\<lparr>req_errors := req_errors q @
          (violations (\<lambda>s. s = ''client_credentials'') ''grant_type'' ''Invalid value'' (req_body q) @
           violations (\<lambda>s. s \<noteq> []) ''client_id'' ''Invalid value'' (req_body q) @
           violations (\<lambda>s. s \<noteq> []) ''client_secret'' ''Invalid value'' (req_body q))\<rparr>) v"
proof -
  have o: "\<exists>r w'. oauth_token d x v = (Done r, w')" for x
    by (simp add: oauth_token_eq)
  let ?q = "q\<lparr>req_errors := req_errors q @
          (violations (\<lambda>s. s = ''client_credentials'') ''grant_type'' ''Invalid value'' (req_body q) @
           violations (\<lambda>s. s \<noteq> []) ''client_id'' ''Invalid value'' (req_body q) @
           violations (\<lambda>s. s \<noteq> []) ''client_secret'' ''Invalid value'' (req_body q))\<rparr>"
  have "run_chain [body_equals ''grant_type'' ''client_credentials'' ''Invalid value'',
              body_notEmpty ''client_id'' ''Invalid value'',
              body_notEmpty ''client_secret'' ''Invalid value'',
              oauth_token d] q v =
        run_chain [oauth_token d] ?q v"
    by (simp add: body_equals_def body_notEmpty_def validate_def del: run_chain.simps(1))
  also have "\<dots> = oauth_token d ?q v"
    using o[of ?q] by auto
  finally show ?thesis .
qed

lemma routes_oauth:
  assumes "req_method q = POST" "req_originalUrl q = [''oauth'', ''token'']"
      "run_chain [body_equals ''grant_type'' ''client_credentials'' ''Invalid value'',
              body_notEmpty ''client_id'' ''Invalid value'',
              body_notEmpty ''client_secret'' ''Invalid value'',
              oauth_token d] (q\<lparr>req_url := [''oauth'', ''token'']\<rparr>) v = (Done r, v')"
  shows "dispatch (drop 3 (app d)) q v = (Some r, v')"
  using assms by (simp add: app_def del: run_chain.simps)

text \<open>The token the endpoint signs: the payload of lines 240-244 under the configured secret.\<close>

lemma gateway_oauth:
  assumes "req_method req = POST" "req_originalUrl req = [''oauth'', ''token'']"
      "admit (req_now req) (req_ip req) (hits w) = (True, store)" "parses req"
  shows "gateway d req w =
     (if token_errors req \<noteq> [] then
        (Some \<lparr>status = 400,
               res_body = Json (JObj [(''errors'', JArr (map verror_json (token_errors req)))])\<rparr>,
         w\<lparr>hits := store\<rparr>)
      else
        (Some \<lparr>status = 200,
               res_body = Json (JObj [(''access_token'',
                                         JStr (jwt_sign (d_jwt d)
                                                 [(''client_id'', field (parsed_body req) ''client_id''),
                                                  (''scope'', JStr ''fhir:read fhir:write hl7:process''),
                                                  (''iss'', JStr ''epic-ehr-gateway'')]
                                                 (env_or (d_env d) ''JWT_SECRET'' ''fallback-secret'')
                                                 3600 (req_now req div 1000))),
                                      (''token_type'', JStr ''Bearer''),
                                      (''expires_in'', JNum 3600),
                                      (''scope'', JStr ''fhir:read fhir:write hl7:process'')])\<rparr>,
         logger Info ''OAuth token issued''
           (JObj [(''client_id'', field (parsed_body req) ''client_id'')]) (w\<lparr>hits := store\<rparr>)))"
proof -
  let ?q = "(routed req)\<lparr>req_url := [''oauth'', ''token'']\<rparr>"
  let ?e = "?q\<lparr>req_errors := req_errors ?q @
          (violations (\<lambda>s. s = ''client_credentials'') ''grant_type'' ''Invalid value'' (req_body ?q) @
           violations (\<lambda>s. s \<noteq> []) ''client_id'' ''Invalid value'' (req_body ?q) @
           violations (\<lambda>s. s \<noteq> []) ''client_secret'' ''Invalid value'' (req_body ?q))\<rparr>"
  have m: "req_method (routed req) = POST" "req_originalUrl (routed req) = [''oauth'', ''token'']"
    using assms(1,2) by (simp_all add: routed_def fresh_def)
  have e: "req_errors ?e = token_errors req" "req_body ?e = parsed_body req" "req_now ?e = req_now req"
    by (simp_all add: routed_def fresh_def token_errors_def)
  obtain r v' where o: "oauth_token d ?e (w\<lparr>hits := store\<rparr>) = (Done r, v')"
    using oauth_token_done by blast
  then have "run_chain [body_equals ''grant_type'' ''client_credentials'' ''Invalid value'',
              body_notEmpty ''client_id'' ''Invalid value'',
              body_notEmpty ''client_secret'' ''Invalid value'',
              oauth_token d] ?q (w\<lparr>hits := store\<rparr>) = (Done r, v')"
    by (simp only: oauth_chain)
  from routes_oauth[OF m this] have "gateway d req w = (Some r, v')"
    using assms by (simp add: gateway_routes)
  moreover from o have "(Done r, v') =
     (if token_errors req \<noteq> [] then
        (Done \<lparr>status = 400,
               res_body = Json (JObj [(''errors'', JArr (map verror_json (token_errors req)))])\<rparr>,
         w\<lparr>hits := store\<rparr>)
      else
        (Done \<lparr>status = 200,
               res_body = Json (JObj [(''access_token'', JStr (sign_token d ?e)),
                                      (''token_type'', JStr ''Bearer''),
                                      (''expires_in'', JNum 3600),
                                      (''scope'', JStr token_scope)])\<rparr>,
         logger Info ''OAuth token issued''
           (JObj [(''client_id'', field (parsed_body req) ''client_id'')]) (w\<lparr>hits := store\<rparr>)))"
    by (simp only: oauth_token_eq e)
  moreover have "req_body (routed req) = parsed_body req" "req_now (routed req) = req_now req"
    by (simp_all add: routed_def fresh_def)
  ultimately show ?thesis
    by (auto simp: sign_token_def token_payload_def e token_scope_def jwt_secret_def
          split: if_splits)
qed

text \<open>
  A member that is a string or absent is tested as its text; an empty array passes every
  validator.
\<close>

lemma violations_textual:
  "textual (field b f) \<Longrightarrow>
   violations ok f msg b =
     (if ok (validator_text (field b f)) then []
      else [\<lparr>ve_value = field b f, ve_msg = msg, ve_param = f\<rparr>])"
  by (cases "field b f") (simp_all add: violations_def)

lemma violations_empty_array: "field b f = JArr [] \<Longrightarrow> violations ok f msg b = []"
  by (simp add: violations_def)

lemma token_errors_textual:
  assumes "textual (field (parsed_body req) ''grant_type'')"
      "textual (field (parsed_body req) ''client_id'')"
      "textual (field (parsed_body req) ''client_secret'')"
  shows "token_errors req = map (invalid_value req) (failing_fields req)"
  using assms
  by (simp add: token_errors_def violations_textual failing_fields_def invalid_value_def
        body_value_def)

subsection \<open>C3: token requests\<close>


lemma valid_members:
  assumes "field (parsed_body req) ''grant_type'' = JStr ''client_credentials''"
      "field (parsed_body req) ''client_id'' = JStr c" "c \<noteq> []"
      "field (parsed_body req) ''client_secret'' = JStr s" "s \<noteq> []"
  shows "token_errors req = []"
  using assms by (simp add: token_errors_textual failing_fields_def body_value_def)


lemma token_response:
  assumes "req_method req = POST" "req_originalUrl req = [''oauth'', ''token'']"
      "admit (req_now req) (req_ip req) (hits w) = (True, store)" "parses req"
      "field (parsed_body req) ''grant_type'' = JStr ''client_credentials''"
      "field (parsed_body req) ''client_id'' = JStr c" "c \<noteq> []"
      "field (parsed_body req) ''client_secret'' = JStr s" "s \<noteq> []"
  shows "gateway d req w =
     (Some \<lparr>status = 200,
            res_body = Json (JObj [(''access_token'',
                                      JStr (jwt_sign (d_jwt d)
                                              [(''client_id'', JStr c),
                                               (''scope'', JStr ''fhir:read fhir:write hl7:process''),
                                               (''iss'', JStr ''epic-ehr-gateway'')]
                                              (env_or (d_env d) ''JWT_SECRET'' ''fallback-secret'')
                                              3600 (req_now req div 1000))),
                                   (''token_type'', JStr ''Bearer''),
                                   (''expires_in'', JNum 3600),
                                   (''scope'', JStr ''fhir:read fhir:write hl7:process'')])\<rparr>,
      logger Info ''OAuth token issued'' (JObj [(''client_id'', JStr c)]) (w\<lparr>hits := store\<rparr>))"
  using valid_members[OF assms(5-9)] assms(6)
  by (simp add: gateway_oauth[OF assms(1-4)])




subsection \<open>C2: issue, then authenticate\<close>

lemma issued_token:
  assumes "req_method req = POST" "req_originalUrl req = [''oauth'', ''token'']"
      "admit (req_now req) (req_ip req) (hits w) = (True, store)"
      "map_option res_body (fst (gateway d req w)) =
         Some (Json (JObj ((''access_token'', JStr token) # members)))"
  shows "parses req" "token_errors req = []"
    "token = jwt_sign (d_jwt d)
               [(''client_id'', field (parsed_body req) ''client_id''),
                (''scope'', JStr token_scope), (''iss'', JStr ''epic-ehr-gateway'')]
               (jwt_secret (d_env d)) 3600 (req_now req div 1000)"
proof -
  show p: "parses req"
  proof (cases "req_raw req")
    case (Parsed b)
    then show ?thesis by (simp add: parses_def)
  next
    case (Unparsable err)
    with assms show ?thesis by (simp add: gateway_unparsable)
  qed
  show e: "token_errors req = []"
  proof (rule ccontr)
    assume "token_errors req \<noteq> []"
    then show False using assms(4) by (simp add: gateway_oauth[OF assms(1-3) p])
  qed
  show "token = jwt_sign (d_jwt d)
               [(''client_id'', field (parsed_body req) ''client_id''),
                (''scope'', JStr token_scope), (''iss'', JStr ''epic-ehr-gateway'')]
               (jwt_secret (d_env d)) 3600 (req_now req div 1000)"
    using assms(4) e by (simp add: gateway_oauth[OF assms(1-3) p] token_scope_def jwt_secret_def)
qed

lemma valid_payload:
  assumes "token_errors req = []" "textual (field (parsed_body req) ''client_id'')"
  shows "plain [(''client_id'', field (parsed_body req) ''client_id''),
                (''scope'', JStr token_scope), (''iss'', JStr ''epic-ehr-gateway'')]"
    and "field ([(''client_id'', field (parsed_body req) ''client_id''),
                 (''scope'', JStr token_scope), (''iss'', JStr ''epic-ehr-gateway'')] @ rest) ''client_id'' =
           JStr (body_value req ''client_id'')"
proof -
  from assms have "violations (\<lambda>s. s \<noteq> []) ''client_id'' ''Invalid value'' (parsed_body req) = []"
    by (simp add: token_errors_def)
  with assms(2) obtain c where c: "field (parsed_body req) ''client_id'' = JStr c"
    by (cases "field (parsed_body req) ''client_id''") (simp_all add: violations_def)
  show "plain [(''client_id'', field (parsed_body req) ''client_id''),
                (''scope'', JStr token_scope), (''iss'', JStr ''epic-ehr-gateway'')]"
    by (simp add: plain_def c)
  show "field ([(''client_id'', field (parsed_body req) ''client_id''),
                 (''scope'', JStr token_scope), (''iss'', JStr ''epic-ehr-gateway'')] @ rest) ''client_id'' =
           JStr (body_value req ''client_id'')"
    by (simp add: field_def[of "_ # _"] c body_value_def)
qed

lemma round_trip:
  assumes "jwt_contract (d_jwt d)" "plain payload"
      "header r ''authorization'' = Some (''Bearer '' @ jwt_sign (d_jwt d) payload (jwt_secret (d_env d)) 3600 t)"
  shows "authenticateToken d r v =
       (if req_now r div 1000 < t + 3600
        then (Next (r\<lparr>req_user := Some (payload @ [(''iat'', JNum t), (''exp'', JNum (t + 3600))])\<rparr>), v)
        else (respond 403 (Json (JObj [(''error'', JStr ''Invalid or expired token'')])),
              logger Error ''JWT verification failed'' (JObj [(''error'', JStr ''jwt expired'')]) v))"
proof -
  let ?u = "payload @ [(''iat'', JNum t), (''exp'', JNum (t + 3600))]"
  let ?tok = "jwt_sign (d_jwt d) payload (jwt_secret (d_env d)) 3600 t"
  have c: "wellformed ?tok"
    "jwt_verify (d_jwt d) ?tok (jwt_secret (d_env d)) now =
       (if t + 3600 \<le> now then Inl ''jwt expired'' else Inr ?u)" for now
    using assms(1,2) by (simp_all add: jwt_contract_def)
  have h: "header_token (header r ''authorization'') = Some ?tok"
    using header_token_scheme[of "''Bearer''" ?tok] c(1) assms(3) by (simp add: wellformed_def)
  have n: "?tok \<noteq> []" using c(1) by (simp add: wellformed_def)
  show ?thesis
  proof (cases "req_now r div 1000 < t + 3600")
    case True
    then have "jwt_verify (d_jwt d) ?tok (jwt_secret (d_env d)) (req_now r div 1000) = Inr ?u"
      by (simp add: c(2))
    from auth_ok[OF h n this] True show ?thesis by simp
  next
    case False
    then have "jwt_verify (d_jwt d) ?tok (jwt_secret (d_env d)) (req_now r div 1000) = Inl ''jwt expired''"
      by (simp add: c(2))
    from auth_invalid[OF h n this] False show ?thesis by simp
  qed
qed

text \<open>
  Claim C2. Given a token library that meets its contract: the access token the gateway
  answers a token request with, presented as \<open>Bearer\<close> token, passes the Auth Gate with
  a payload whose \<open>client_id\<close> is the request's, as long as the clock (in whole
  seconds) is less than 3600 s past the issuing second, and is answered 403 from then
  on. In particular it passes 3599 s after it was issued and is rejected 3601 s after.
  The \<open>client_id\<close> of the request is a string.
\<close>

theorem token_round_trip:
  "jwt_contract (d_jwt d) \<and> req_method req = POST \<and> req_originalUrl req = [''oauth'', ''token''] \<and>
   admit (req_now req) (req_ip req) (hits w) = (True, store) \<and>
   map_option res_body (fst (gateway d req w)) =
     Some (Json (JObj ((''access_token'', JStr token) # members))) \<and>
   textual (field (parsed_body req) ''client_id'') \<and>
   header r ''authorization'' = Some (''Bearer '' @ token) \<longrightarrow>
     (\<exists>u. field u ''client_id'' = JStr (body_value req ''client_id'') \<and>
        authenticateToken d r v =
          (if req_now r div 1000 < req_now req div 1000 + 3600
           then (Next (r\<lparr>req_user := Some u\<rparr>), v)
           else (respond 403 (Json (JObj [(''error'', JStr ''Invalid or expired token'')])),
                 logger Error ''JWT verification failed'' (JObj [(''error'', JStr ''jwt expired'')]) v))) \<and>
     (req_now r = req_now req + 3599000 \<longrightarrow>
        (\<exists>u. field u ''client_id'' = JStr (body_value req ''client_id'') \<and>
           authenticateToken d r v = (Next (r\<lparr>req_user := Some u\<rparr>), v))) \<and>
     (req_now r = req_now req + 3601000 \<longrightarrow>
        authenticateToken d r v =
          (respond 403 (Json (JObj [(''error'', JStr ''Invalid or expired token'')])),
           logger Error ''JWT verification failed'' (JObj [(''error'', JStr ''jwt expired'')]) v))"
proof (intro impI)
  assume a: "jwt_contract (d_jwt d) \<and> req_method req = POST \<and> req_originalUrl req = [''oauth'', ''token''] \<and>
   admit (req_now req) (req_ip req) (hits w) = (True, store) \<and>
   map_option res_body (fst (gateway d req w)) =
     Some (Json (JObj ((''access_token'', JStr token) # members))) \<and>
   textual (field (parsed_body req) ''client_id'') \<and>
   header r ''authorization'' = Some (''Bearer '' @ token)"
  let ?payload = "[(''client_id'', field (parsed_body req) ''client_id''),
                   (''scope'', JStr token_scope), (''iss'', JStr ''epic-ehr-gateway'')]"
  let ?t = "req_now req div 1000"
  let ?u = "?payload @ [(''iat'', JNum ?t), (''exp'', JNum (?t + 3600))]"
  from a have i: "token_errors req = []"
      "token = jwt_sign (d_jwt d) ?payload (jwt_secret (d_env d)) 3600 ?t"
    using issued_token[of req w store d token members] by simp_all
  from a have tx: "textual (field (parsed_body req) ''client_id'')" by simp
  from a i have h: "header r ''authorization'' =
      Some (''Bearer '' @ jwt_sign (d_jwt d) ?payload (jwt_secret (d_env d)) 3600 ?t)" by simp
  from a have k: "jwt_contract (d_jwt d)" by simp
  have u: "field ?u ''client_id'' = JStr (body_value req ''client_id'')"
    by (rule valid_payload(2)[OF i(1) tx])
  have au: "authenticateToken d r v =
       (if req_now r div 1000 < ?t + 3600 then (Next (r\<lparr>req_user := Some ?u\<rparr>), v)
        else (respond 403 (Json (JObj [(''error'', JStr ''Invalid or expired token'')])),
              logger Error ''JWT verification failed'' (JObj [(''error'', JStr ''jwt expired'')]) v))"
    by (rule round_trip[OF k valid_payload(1)[OF i(1) tx] h])
  have early: "req_now r = req_now req + 3599000 \<Longrightarrow> req_now r div 1000 < req_now req div 1000 + 3600"
    by simp
  have late: "req_now r = req_now req + 3601000 \<Longrightarrow> \<not> req_now r div 1000 < req_now req div 1000 + 3600"
    by simp
  show "(\<exists>u. field u ''client_id'' = JStr (body_value req ''client_id'') \<and>
        authenticateToken d r v =
          (if req_now r div 1000 < req_now req div 1000 + 3600
           then (Next (r\<lparr>req_user := Some u\<rparr>), v)
           else (respond 403 (Json (JObj [(''error'', JStr ''Invalid or expired token'')])),
                 logger Error ''JWT verification failed'' (JObj [(''error'', JStr ''jwt expired'')]) v))) \<and>
     (req_now r = req_now req + 3599000 \<longrightarrow>
        (\<exists>u. field u ''client_id'' = JStr (body_value req ''client_id'') \<and>
           authenticateToken d r v = (Next (r\<lparr>req_user := Some u\<rparr>), v))) \<and>
     (req_now r = req_now req + 3601000 \<longrightarrow>
        authenticateToken d r v =
          (respond 403 (Json (JObj [(''error'', JStr ''Invalid or expired token'')])),
           logger Error ''JWT verification failed'' (JObj [(''error'', JStr ''jwt expired'')]) v))"
  proof (intro conjI impI)
    show "\<exists>u. field u ''client_id'' = JStr (body_value req ''client_id'') \<and>
        authenticateToken d r v =
          (if req_now r div 1000 < req_now req div 1000 + 3600
           then (Next (r\<lparr>req_user := Some u\<rparr>), v)
           else (respond 403 (Json (JObj [(''error'', JStr ''Invalid or expired token'')])),
                 logger Error ''JWT verification failed'' (JObj [(''error'', JStr ''jwt expired'')]) v))"
      using u au by (intro exI[of _ ?u] conjI)
  next
    assume "req_now r = req_now req + 3599000"
    from early[OF this] au
    have "authenticateToken d r v = (Next (r\<lparr>req_user := Some ?u\<rparr>), v)" by simp
    with u show "\<exists>u. field u ''client_id'' = JStr (body_value req ''client_id'') \<and>
           authenticateToken d r v = (Next (r\<lparr>req_user := Some u\<rparr>), v)"
      by (intro exI[of _ ?u] conjI)
  next
    assume "req_now r = req_now req + 3601000"
    from late[OF this] au
    show "authenticateToken d r v =
          (respond 403 (Json (JObj [(''error'', JStr ''Invalid or expired token'')])),
           logger Error ''JWT verification failed'' (JObj [(''error'', JStr ''jwt expired'')]) v)"
      by simp
  qed
qed

lemma c1_issued:
  "map_option res_body (fst (gateway (demo up_ok) token_request w0)) =
     Some (Json (JObj ((''access_token'', JStr c1_token) #
                       [(''token_type'', JStr ''Bearer''), (''expires_in'', JNum 3600),
                        (''scope'', JStr token_scope)])))"
proof -
  have "gateway (demo up_ok) token_request w0 =
     (Some \<lparr>status = 200,
            res_body = Json (JObj [(''access_token'',
                                      JStr (jwt_sign (d_jwt (demo up_ok))
                                              [(''client_id'', JStr ''c1''),
                                               (''scope'', JStr ''fhir:read fhir:write hl7:process''),
                                               (''iss'', JStr ''epic-ehr-gateway'')]
                                              (env_or (d_env (demo up_ok)) ''JWT_SECRET'' ''fallback-secret'')
                                              3600 (req_now token_request div 1000))),
                                   (''token_type'', JStr ''Bearer''),
                                   (''expires_in'', JNum 3600),
                                   (''scope'', JStr ''fhir:read fhir:write hl7:process'')])\<rparr>,
      logger Info ''OAuth token issued'' (JObj [(''client_id'', JStr ''c1'')])
        (w0\<lparr>hits := [(''10.0.0.7'', \<lparr>count = 1, window_start = 1000000\<rparr>)]\<rparr>))"
    by (rule token_response[where s = "''s1''"])
       (simp_all add: token_request_def request_at_def w0_def admit_first parses_def
          parsed_body_def field_def)
  then show ?thesis
    by (simp add: c1_token_def c1_payload_def token_scope_def demo_def ref_jwt_def env_or_def
          token_request_def request_at_def)
qed

theorem token_round_trip_witness:
  "(\<exists>u. field u ''client_id'' = JStr ''c1'' \<and>
      authenticateToken (demo up_ok) (request_at GET [''Patient''] (bearer c1_token) [] 4599000) w0 =
        (Next ((request_at GET [''Patient''] (bearer c1_token) [] 4599000)\<lparr>req_user := Some u\<rparr>), w0)) \<and>
   authenticateToken (demo up_ok) (request_at GET [''Patient''] (bearer c1_token) [] 4601000) w0 =
     (respond 403 (Json (JObj [(''error'', JStr ''Invalid or expired token'')])),
      logger Error ''JWT verification failed'' (JObj [(''error'', JStr ''jwt expired'')]) w0)"
proof -
  have k: "jwt_contract (d_jwt (demo up_ok))"
    by (simp add: demo_def ref_jwt_contract)
  have a: "admit (req_now token_request) (req_ip token_request) (hits w0) =
      (True, [(''10.0.0.7'', \<lparr>count = 1, window_start = 1000000\<rparr>)])"
    by (simp add: token_request_def request_at_def w0_def admit_first)
  have m: "req_method token_request = POST" "req_originalUrl token_request = [''oauth'', ''token'']"
    "req_now token_request = 1000000" "body_value token_request ''client_id'' = ''c1''"
    "textual (field (parsed_body token_request) ''client_id'')"
    by (simp_all add: token_request_def request_at_def body_value_def parsed_body_def field_def)
  have h: "header (request_at GET [''Patient''] (bearer c1_token) [] t) ''authorization'' =
      Some (''Bearer '' @ c1_token)" for t
    by (simp add: header_def request_at_def bearer_def)
  have n: "req_now (request_at GET [''Patient''] (bearer c1_token) [] t) = t" for t
    by (simp add: request_at_def)
  from token_round_trip[where d = "demo up_ok" and req = token_request and w = w0
          and token = c1_token and r = "request_at GET [''Patient''] (bearer c1_token) [] 4599000"
          and v = w0] k a m h c1_issued
  have 1: "\<exists>u. field u ''client_id'' = JStr ''c1'' \<and>
      authenticateToken (demo up_ok) (request_at GET [''Patient''] (bearer c1_token) [] 4599000) w0 =
        (Next ((request_at GET [''Patient''] (bearer c1_token) [] 4599000)\<lparr>req_user := Some u\<rparr>), w0)"
    by (simp add: n)
  from token_round_trip[where d = "demo up_ok" and req = token_request and w = w0
          and token = c1_token and r = "request_at GET [''Patient''] (bearer c1_token) [] 4601000"
          and v = w0] k a m h c1_issued
  have 2: "authenticateToken (demo up_ok) (request_at GET [''Patient''] (bearer c1_token) [] 4601000) w0 =
     (respond 403 (Json (JObj [(''error'', JStr ''Invalid or expired token'')])),
      logger Error ''JWT verification failed'' (JObj [(''error'', JStr ''jwt expired'')]) w0)"
    by (simp add: n)
  from 1 2 show ?thesis by blast
qed

subsection \<open>C8: what is logged for whom\<close>

lemma dispatch_skip:
  "list_all (\<lambda>layer. \<not> takes layer req) layers \<Longrightarrow>
   dispatch (layers @ rest) req w = dispatch rest req w"
proof (induction layers)
  case Nil
  show ?case by simp
next
  case (Cons layer layers)
  then show ?case by (cases layer) simp_all
qed

lemma gateway_unrouted:
  assumes "req_method req \<noteq> OPTIONS" "admit (req_now req) (req_ip req) (hits w) = (True, store)"
      "parses req" "unrouted d req"
  shows "gateway d req w =
     (Some \<lparr>status = 404, res_body = Json (JObj [(''error'', JStr ''Endpoint not found'')])\<rparr>,
      w\<lparr>hits := store\<rparr>)"
proof -
  have m: "takes layer (routed req) = takes layer req" for layer
  proof (cases layer)
    case (Layer mt ms)
    then show ?thesis by (cases mt) (simp_all add: routed_def fresh_def)
  next
    case (ErrorHandler h)
    then show ?thesis by simp
  qed
  have s: "drop 3 (app d) = butlast (drop 3 (app d)) @ [Layer (Use []) [not_found]]"
    by (simp add: app_def)
  have "list_all (\<lambda>layer. \<not> takes layer (routed req)) (butlast (drop 3 (app d)))"
    using assms(4) by (simp add: unrouted_def m)
  from dispatch_skip[OF this, of "[Layer (Use []) [not_found]]" "w\<lparr>hits := store\<rparr>"]
  have "dispatch (drop 3 (app d)) (routed req) (w\<lparr>hits := store\<rparr>) =
        dispatch [Layer (Use []) [not_found]] (routed req) (w\<lparr>hits := store\<rparr>)"
    using s by simp
  then show ?thesis
    by (simp add: gateway_routes[OF assms(1,2,3)] not_found_def respond_def)
qed

text \<open>
  Claim C8, as the code has it, for requests whose body parses. A request that passes
  the Auth Gate on a protected prefix adds exactly one audit record, the \<open>API Access\<close>
  entry that \<open>auditLogger\<close> writes before the proxy runs, whatever the upstream then
  does. A request that no route takes is answered 404 with nothing logged. A token
  request adds exactly one log entry, \<open>OAuth token issued\<close> with the client id, when it
  is answered with a token, and none when it is rejected.
\<close>

theorem audit_of_admitted_requests:
  "(req_originalUrl req = p # rest \<and> p \<in> set protected_prefixes \<and> req_method req \<noteq> OPTIONS \<and>
    admit (req_now req) (req_ip req) (hits w) = (True, store) \<and> parses req \<and>
    header_token (header req ''authorization'') = Some token \<and> token \<noteq> [] \<and>
    jwt_verify (d_jwt d) token (jwt_secret (d_env d)) (req_now req div 1000) = Inr u
    \<longrightarrow> audit_records (snd (gateway d req w)) =
          audit_records w @
            [\<lparr>log_level = Info, log_message = ''API Access'',
              log_meta = auditData (forwarded req rest u)\<rparr>]) \<and>
   (req_method req \<noteq> OPTIONS \<and> admit (req_now req) (req_ip req) (hits w) = (True, store) \<and>
    parses req \<and> unrouted d req
    \<longrightarrow> gateway d req w =
          (Some \<lparr>status = 404, res_body = Json (JObj [(''error'', JStr ''Endpoint not found'')])\<rparr>,
           w\<lparr>hits := store\<rparr>)) \<and>
   (req_method req = POST \<and> req_originalUrl req = [''oauth'', ''token''] \<and>
    admit (req_now req) (req_ip req) (hits w) = (True, store) \<and> parses req
    \<longrightarrow> logs (snd (gateway d req w)) =
          (if token_errors req = [] then
             logs w @ [\<lparr>log_level = Info, log_message = ''OAuth token issued'',
                        log_meta = JObj [(''client_id'', field (parsed_body req) ''client_id'')]\<rparr>]
           else logs w))"
proof (intro conjI impI)
  assume "req_originalUrl req = p # rest \<and> p \<in> set protected_prefixes \<and> req_method req \<noteq> OPTIONS \<and>
    admit (req_now req) (req_ip req) (hits w) = (True, store) \<and> parses req \<and>
    header_token (header req ''authorization'') = Some token \<and> token \<noteq> [] \<and>
    jwt_verify (d_jwt d) token (jwt_secret (d_env d)) (req_now req div 1000) = Inr u"
  then show "audit_records (snd (gateway d req w)) =
          audit_records w @
            [\<lparr>log_level = Info, log_message = ''API Access'',
              log_meta = auditData (forwarded req rest u)\<rparr>]"
    using gateway_audit_record[of req p rest w store token d u] by blast
next
  assume "req_method req \<noteq> OPTIONS \<and> admit (req_now req) (req_ip req) (hits w) = (True, store) \<and>
    parses req \<and> unrouted d req"
  then show "gateway d req w =
          (Some \<lparr>status = 404, res_body = Json (JObj [(''error'', JStr ''Endpoint not found'')])\<rparr>,
           w\<lparr>hits := store\<rparr>)"
    using gateway_unrouted by blast
next
  assume a: "req_method req = POST \<and> req_originalUrl req = [''oauth'', ''token''] \<and>
    admit (req_now req) (req_ip req) (hits w) = (True, store) \<and> parses req"
  then show "logs (snd (gateway d req w)) =
          (if token_errors req = [] then
             logs w @ [\<lparr>log_level = Info, log_message = ''OAuth token issued'',
                        log_meta = JObj [(''client_id'', field (parsed_body req) ''client_id'')]\<rparr>]
           else logs w)"
    by (simp add: gateway_oauth logger_def)
qed

lemma nope_unrouted: "unrouted d (request_at GET [''nope''] [] [] 2000000)"
  by (simp add: unrouted_def app_def request_at_def)



theorem audit_of_admitted_requests_witness:
  "audit_records (snd (gateway (demo up_ok)
       (request_at GET [''fhir'', ''Patient''] (bearer c1_token) [] 2000000) w0)) =
     [\<lparr>log_level = Info, log_message = ''API Access'',
       log_meta = auditData (forwarded (request_at GET [''fhir'', ''Patient''] (bearer c1_token) [] 2000000)
                    [''Patient''] c1_user)\<rparr>] \<and>
   gateway (demo up_ok) (request_at GET [''nope''] [] [] 2000000) w0 =
     (Some \<lparr>status = 404, res_body = Json (JObj [(''error'', JStr ''Endpoint not found'')])\<rparr>,
      w0\<lparr>hits := [(''10.0.0.7'', \<lparr>count = 1, window_start = 2000000\<rparr>)]\<rparr>) \<and>
   logs (snd (gateway (demo up_ok) token_request w0)) =
     [\<lparr>log_level = Info, log_message = ''OAuth token issued'',
       log_meta = JObj [(''client_id'', JStr ''c1'')]\<rparr>] \<and>
   logs (snd (gateway (demo up_ok)
       (request_at POST [''oauth'', ''token''] [] [(''grant_type'', JStr ''password'')] 2000000) w0)) = []"
proof -
  have 1: "audit_records (snd (gateway (demo up_ok)
       (request_at GET [''fhir'', ''Patient''] (bearer c1_token) [] 2000000) w0)) =
     [\<lparr>log_level = Info, log_message = ''API Access'',
       log_meta = auditData (forwarded (request_at GET [''fhir'', ''Patient''] (bearer c1_token) [] 2000000)
                    [''Patient''] c1_user)\<rparr>]"
    using audit_of_admitted_requests[where req = "request_at GET [''fhir'', ''Patient''] (bearer c1_token) [] 2000000"
            and p = "''fhir''" and rest = "[''Patient'']" and w = w0 and token = c1_token
            and d = "demo up_ok" and u = c1_user
            and store = "[(''10.0.0.7'', \<lparr>count = 1, window_start = 2000000\<rparr>)]"]
          bearer_c1 c1_nonempty c1_token_verify[of up_ok 2000]
    by (simp add: request_at_def w0_def admit_first protected_prefixes_def header_def bearer_def
          audit_records_def parses_def)
  have 2: "gateway (demo up_ok) (request_at GET [''nope''] [] [] 2000000) w0 =
     (Some \<lparr>status = 404, res_body = Json (JObj [(''error'', JStr ''Endpoint not found'')])\<rparr>,
      w0\<lparr>hits := [(''10.0.0.7'', \<lparr>count = 1, window_start = 2000000\<rparr>)]\<rparr>)"
    using audit_of_admitted_requests[where req = "request_at GET [''nope''] [] [] 2000000"
            and w = w0 and d = "demo up_ok" and p = "[]" and rest = "[]" and token = "[]" and u = "[]"
            and store = "[(''10.0.0.7'', \<lparr>count = 1, window_start = 2000000\<rparr>)]"]
          nope_unrouted[of "demo up_ok"]
    by (simp add: request_at_def w0_def admit_first parses_def)
  have 3: "logs (snd (gateway (demo up_ok) token_request w0)) =
     [\<lparr>log_level = Info, log_message = ''OAuth token issued'',
       log_meta = JObj [(''client_id'', JStr ''c1'')]\<rparr>]"
    using audit_of_admitted_requests[where req = token_request
            and w = w0 and d = "demo up_ok" and p = "[]" and rest = "[]" and token = "[]" and u = "[]"
            and store = "[(''10.0.0.7'', \<lparr>count = 1, window_start = 1000000\<rparr>)]"]
    by (simp add: token_request_def request_at_def w0_def admit_first token_errors_def
          violations_def parsed_body_def parses_def field_def)
  have 4: "logs (snd (gateway (demo up_ok)
       (request_at POST [''oauth'', ''token''] [] [(''grant_type'', JStr ''password'')] 2000000) w0)) = []"
    using audit_of_admitted_requests[where req = "request_at POST [''oauth'', ''token''] [] [(''grant_type'', JStr ''password'')] 2000000"
            and w = w0 and d = "demo up_ok" and p = "[]" and rest = "[]" and token = "[]" and u = "[]"
            and store = "[(''10.0.0.7'', \<lparr>count = 1, window_start = 2000000\<rparr>)]"]
    by (simp add: request_at_def w0_def admit_first token_errors_def violations_def
          parsed_body_def parses_def field_def)
  from 1 2 3 4 show ?thesis by simp
qed

text \<open>
  The claim as written (every rejected request and every token request leaves exactly one
  audit record) fails: a request to a path no route takes is answered 404, and a token
  request with the wrong grant type is answered 400, and neither leaves any log entry.
\<close>

theorem rejections_leave_no_audit_record:
  "map_option status (fst (gateway (demo up_ok) (request_at GET [''nope''] [] [] 2000000) w0)) = Some 404 \<and>
   logs (snd (gateway (demo up_ok) (request_at GET [''nope''] [] [] 2000000) w0)) = [] \<and>
   map_option status (fst (gateway (demo up_ok)
       (request_at POST [''oauth'', ''token''] [] [(''grant_type'', JStr ''password'')] 2000000) w0)) = Some 400 \<and>
   logs (snd (gateway (demo up_ok)
       (request_at POST [''oauth'', ''token''] [] [(''grant_type'', JStr ''password'')] 2000000) w0)) = []"
proof -
  let ?bad = "request_at POST [''oauth'', ''token''] [] [(''grant_type'', JStr ''password'')] 2000000"
  have a: "admit (req_now (request_at m path [] b 2000000)) (req_ip (request_at m path [] b 2000000)) (hits w0) =
      (True, [(''10.0.0.7'', \<lparr>count = 1, window_start = 2000000\<rparr>)])" for m path b
    by (simp add: request_at_def w0_def admit_first)
  have p: "parses (request_at m path [] b 2000000)" for m path b
    by (simp add: request_at_def parses_def)
  have "gateway (demo up_ok) (request_at GET [''nope''] [] [] 2000000) w0 =
     (Some \<lparr>status = 404, res_body = Json (JObj [(''error'', JStr ''Endpoint not found'')])\<rparr>,
      w0\<lparr>hits := [(''10.0.0.7'', \<lparr>count = 1, window_start = 2000000\<rparr>)]\<rparr>)"
    by (rule gateway_unrouted[OF _ a p nope_unrouted]) (simp add: request_at_def)
  moreover have "token_errors ?bad \<noteq> []"
    by (simp add: token_errors_def violations_def parsed_body_def field_def request_at_def)
  moreover have "req_method ?bad = POST" "req_originalUrl ?bad = [''oauth'', ''token'']"
    by (simp_all add: request_at_def)
  ultimately show ?thesis
    using gateway_oauth[OF _ _ a p, of POST "[''oauth'', ''token'']" "[(''grant_type'', JStr ''password'')]" "demo up_ok"]
    by (simp add: w0_def)
qed

subsection \<open>C9: the audit record of an authenticated request\<close>






end
